theory Spec2Isabelle
  imports Main
begin

section \<open>Values, errors and the outside world\<close>

text \<open>
  The program is \<^verbatim>\<open>generate_ics.py\<close>. Raw events and teams are JSON objects decoded
  into Python dicts. The fields the program reads hold text, null, and (rarely) numbers
  or booleans; floats, arrays and nested objects as field values are left out of the
  model. A character of a model string is a code point below 256; text with other code
  points is left out.
\<close>

datatype json = JNull | JBool bool | JInt int | JStr string

type_synonym pydict = "string \<rightharpoonup> json"

text \<open>
  Every exception the source can raise is a value. \<open>ValueError\<close> carries its message.
  \<open>ParserError\<close> is dateutil's, \<open>UnknownTimeZoneError\<close> is pytz's, \<open>RequestError\<close>
  stands for whatever \<^verbatim>\<open>requests\<close> raises (timeout, HTTP status, bad JSON).
\<close>

datatype error =
    ValueError string
  | TypeError
  | AttributeError
  | KeyError
  | OverflowError
  | ParserError
  | UnknownTimeZoneError
  | RequestError

text \<open>
  A datetime is its wall-clock reading, counted in seconds from 0001-01-01T00:00:00,
  and, when it is aware, its tzinfo. Microseconds are dropped: no arithmetic of the
  program changes them and the rendering omits them. A tzinfo is the UTC offset, in
  seconds, that it gives a wall-clock reading: constant for a fixed offset
  (dateutil's \<^verbatim>\<open>tzutc\<close> and \<^verbatim>\<open>tzoffset\<close>, the tzinfo that pytz's
  \<^verbatim>\<open>localize\<close> attaches), varying with the reading for dateutil's \<^verbatim>\<open>tzlocal\<close>.
  \<open>parsed\<close> is what \<^verbatim>\<open>parser.parse\<close> returns, naive or aware; \<open>pydatetime\<close>
  is the aware value that \<^verbatim>\<open>make_dt\<close> hands on.
\<close>

datatype parsed = Naive int | Aware int "int \<Rightarrow> int"

record pydatetime =
  wall :: int
  tzinfo :: "int \<Rightarrow> int"

definition utcoffset :: "pydatetime \<Rightarrow> int" where
  "utcoffset dt = tzinfo dt (wall dt)"

text \<open>
  What the program gets from outside: the process environment, the two date libraries,
  \<^verbatim>\<open>int()\<close> on text, the HTTP adapter's answer per team id, and the clock, whose
  \<open>k\<close>-th reading (in seconds, UTC) is \<open>utcnow w k\<close>. A zone of pytz is its
  \<^verbatim>\<open>localize\<close>: the UTC offset it assigns to a wall-clock reading, or the exception
  it raises there (OverflowError next to the ends of the range of datetime).
\<close>

record world =
  environ :: "string \<rightharpoonup> string"
  pytz_timezone :: "string \<Rightarrow> (int \<Rightarrow> error + int) option"
  parser_parse :: "string \<Rightarrow> error + parsed"
  int_of_str :: "string \<Rightarrow> error + int"
  requests_get :: "json \<Rightarrow> error + pydict list"
  utcnow :: "nat \<Rightarrow> int"

section \<open>Python's value operations\<close>

definition dict_get :: "pydict \<Rightarrow> string \<Rightarrow> json" where
  "dict_get d k = (case d k of None \<Rightarrow> JNull | Some v \<Rightarrow> v)"

definition dict_get_default :: "pydict \<Rightarrow> string \<Rightarrow> json \<Rightarrow> json" where
  "dict_get_default d k dflt = (case d k of None \<Rightarrow> dflt | Some v \<Rightarrow> v)"

fun truthy :: "json \<Rightarrow> bool" where
  "truthy JNull = False"
| "truthy (JBool b) = b"
| "truthy (JInt n) = (n \<noteq> 0)"
| "truthy (JStr s) = (s \<noteq> [])"

definition py_or :: "json \<Rightarrow> json \<Rightarrow> json" where
  "py_or a b = (if truthy a then a else b)"

definition digit_char :: "nat \<Rightarrow> char" where
  "digit_char n = ''0123456789'' ! (n mod 10)"

fun show_nat :: "nat \<Rightarrow> string" where
  "show_nat n =
     (if n < 10 then [digit_char n] else show_nat (n div 10) @ [digit_char (n mod 10)])"

declare show_nat.simps [simp del]

definition show_int :: "int \<Rightarrow> string" where
  "show_int i = (if i < 0 then CHR ''-'' # show_nat (nat (- i)) else show_nat (nat i))"

fun py_str :: "json \<Rightarrow> string" where
  "py_str JNull = ''None''"
| "py_str (JBool b) = (if b then ''True'' else ''False'')"
| "py_str (JInt n) = show_int n"
| "py_str (JStr s) = s"

definition str_replace_char :: "char \<Rightarrow> char \<Rightarrow> string \<Rightarrow> string" where
  "str_replace_char a b s = map (\<lambda>c. if c = a then b else c) s"

text \<open>\<^verbatim>\<open>x.replace(" ", "_")\<close>: only text has the method.\<close>

fun py_replace_space :: "json \<Rightarrow> error + string" where
  "py_replace_space (JStr s) = Inr (str_replace_char CHR '' '' CHR ''_'' s)"
| "py_replace_space _ = Inl AttributeError"

text \<open>\<^verbatim>\<open>a + b\<close> where the source only ever has text on one side.\<close>

fun py_add :: "json \<Rightarrow> json \<Rightarrow> error + json" where
  "py_add (JStr a) (JStr b) = Inr (JStr (a @ b))"
| "py_add _ _ = Inl TypeError"

text \<open>
  \<^verbatim>\<open>str.strip()\<close>: the code points below 256 that \<^verbatim>\<open>str.isspace\<close> accepts are
  9 to 13, 28 to 32, 133 and 160.
\<close>

definition is_space :: "char \<Rightarrow> bool" where
  "is_space c = (c \<in> set [CHR '' '', CHR 0x09, CHR 0x0A, CHR 0x0B, CHR 0x0C, CHR 0x0D,
                          CHR 0x1C, CHR 0x1D, CHR 0x1E, CHR 0x1F, CHR 0x85, CHR 0xA0])"

definition strip :: "string \<Rightarrow> string" where
  "strip s = rev (dropWhile is_space (rev (dropWhile is_space s)))"

fun join_nl :: "string list \<Rightarrow> string" where
  "join_nl [] = []"
| "join_nl [l] = l"
| "join_nl (l # ls) = l @ CHR 0x0A # join_nl ls"

section \<open>Configuration (lines 9-14)\<close>

definition UID_DOMAIN :: "world \<Rightarrow> string" where
  "UID_DOMAIN w = (case environ w ''ICS_DOMAIN'' of None \<Rightarrow> ''github.io'' | Some s \<Rightarrow> s)"

definition DEFAULT_TZ :: "world \<Rightarrow> string" where
  "DEFAULT_TZ w = (case environ w ''DEFAULT_TZ'' of None \<Rightarrow> ''UTC'' | Some s \<Rightarrow> s)"

definition PRODID :: string where
  "PRODID = ''-//My Sports Calendar//EN''"

section \<open>Identity: \<^verbatim>\<open>uid_for\<close> (lines 27-31)\<close>

definition uid_for :: "world \<Rightarrow> pydict \<Rightarrow> error + string" where
  "uid_for w event =
     (case py_replace_space (py_or (dict_get event ''strLeague'') (JStr ''league'')) of
        Inl e \<Rightarrow> Inl e
      | Inr league \<Rightarrow>
          let eid = py_or (dict_get event ''idEvent'') (dict_get event ''id'')
          in Inr (league @ ''-'' @ py_str eid @ ''@'' @ UID_DOMAIN w))"


section \<open>The proleptic Gregorian calendar of \<^verbatim>\<open>datetime\<close>\<close>

text \<open>
  Days are counted from 0 at 0001-01-01. The last representable day, 9999-12-31, is
  day 3652058, so the instants a datetime can hold are the seconds below \<open>MAXSEC\<close>.
\<close>

definition is_leap :: "nat \<Rightarrow> bool" where
  "is_leap y = (y mod 4 = 0 \<and> (y mod 100 \<noteq> 0 \<or> y mod 400 = 0))"

definition days_in_year :: "nat \<Rightarrow> nat" where
  "days_in_year y = (if is_leap y then 366 else 365)"

definition days_in_month :: "nat \<Rightarrow> nat \<Rightarrow> nat" where
  "days_in_month y m =
     (if m = 2 then (if is_leap y then 29 else 28)
      else if m = 4 \<or> m = 6 \<or> m = 9 \<or> m = 11 then 30 else 31)"

definition days_before_year :: "nat \<Rightarrow> nat" where
  "days_before_year y = (let z = y - 1 in 365 * z + z div 4 + z div 400 - z div 100)"

definition days_before_month :: "nat \<Rightarrow> nat \<Rightarrow> nat" where
  "days_before_month y m = sum_list (map (days_in_month y) [1..<m])"

definition days_from_month :: "nat \<Rightarrow> nat \<Rightarrow> nat" where
  "days_from_month y m = sum_list (map (days_in_month y) [m..<13])"

function find_year :: "nat \<Rightarrow> nat \<Rightarrow> nat \<times> nat" where
  "find_year y n =
     (if n < days_in_year y then (y, n) else find_year (Suc y) (n - days_in_year y))"
  by pat_completeness auto
termination
  by (relation "measure snd") (auto simp: days_in_year_def)

function find_month :: "nat \<Rightarrow> nat \<Rightarrow> nat \<Rightarrow> nat \<times> nat" where
  "find_month y m n =
     (if 12 \<le> m \<or> n < days_in_month y m then (m, n)
      else find_month y (Suc m) (n - days_in_month y m))"
  by pat_completeness auto
termination
  by (relation "measure (\<lambda>(y, m, n). 12 - m)") auto

declare find_year.simps [simp del] find_month.simps [simp del]

definition ord2ymd :: "nat \<Rightarrow> nat \<times> nat \<times> nat" where
  "ord2ymd n =
     (let (y, r) = find_year (400 * (n div 146097) + 1) (n mod 146097);
          (m, d) = find_month y 1 r
      in (y, m, d + 1))"

definition ymd2ord :: "nat \<Rightarrow> nat \<Rightarrow> nat \<Rightarrow> nat" where
  "ymd2ord y m d = days_before_year y + days_before_month y m + (d - 1)"

definition MAXSEC :: int where
  "MAXSEC = 315537897600"

definition civil_seconds :: "nat \<Rightarrow> nat \<Rightarrow> nat \<Rightarrow> nat \<Rightarrow> nat \<Rightarrow> nat \<Rightarrow> int" where
  "civil_seconds y m d H M S = int (ymd2ord y m d * 86400 + H * 3600 + M * 60 + S)"

section \<open>\<^verbatim>\<open>strftime("%Y%m%dT%H%M%SZ")\<close> and reading it back\<close>

text \<open>
  The month, day, hour, minute and second are rendered with two digits. The year is
  rendered as CPython does on glibc, where \<^verbatim>\<open>%Y\<close> is the decimal numeral of the year
  without padding: three digits for the year 999. \<open>FOUR_DIGIT_YEARS\<close> is the first
  instant of the year 1000.
\<close>

definition digits2 :: "nat \<Rightarrow> string" where
  "digits2 n = [digit_char (n div 10), digit_char n]"

definition rfc_text :: "nat \<Rightarrow> nat \<Rightarrow> nat \<Rightarrow> nat \<Rightarrow> nat \<Rightarrow> nat \<Rightarrow> string" where
  "rfc_text y m d H M S =
     show_nat y @ digits2 m @ digits2 d @ ''T'' @ digits2 H @ digits2 M @ digits2 S @ ''Z''"

definition strftime_utc :: "int \<Rightarrow> string" where
  "strftime_utc s =
     (let n = nat s; t = n mod 86400 in
      case ord2ymd (n div 86400) of (y, m, d) \<Rightarrow>
        rfc_text y m d (t div 3600) (t mod 3600 div 60) (t mod 60))"

definition FOUR_DIGIT_YEARS :: int where
  "FOUR_DIGIT_YEARS = 31525372800"

text \<open>
  \<open>is_rfc_utc\<close> is the form \<open>YYYYMMDDTHHMMSSZ\<close>. \<open>rfc_instant\<close> is the reader
  of what \<open>strftime_utc\<close> writes: the last twelve characters are the month, day,
  \<open>T\<close>, time and \<open>Z\<close>, what precedes them is the year. They are not in the source;
  the claims about rendered instants are stated through them.
\<close>

definition digit_val :: "char \<Rightarrow> nat option" where
  "digit_val c =
     (let k = (of_char c :: nat) in if 48 \<le> k \<and> k \<le> 57 then Some (k - 48) else None)"


definition is_digit :: "char \<Rightarrow> bool" where
  "is_digit c = (digit_val c \<noteq> None)"

definition is_rfc_utc :: "string \<Rightarrow> bool" where
  "is_rfc_utc s =
     (length s = 16 \<and> list_all is_digit (take 8 s) \<and> s ! 8 = CHR ''T''
        \<and> list_all is_digit (take 6 (drop 9 s)) \<and> s ! 15 = CHR ''Z'')"


section \<open>\<^verbatim>\<open>to_utc_rfc\<close> (lines 23-25) and \<^verbatim>\<open>make_dt\<close> (lines 33-51)\<close>

text \<open>
  \<^verbatim>\<open>dt.astimezone(pytz.utc)\<close> subtracts the offset that the tzinfo gives the
  datetime and raises OverflowError when the result leaves the representable range.
  Adding a timedelta moves the wall-clock reading and keeps the tzinfo, so the offset
  of the sum is the one the tzinfo gives the new reading; it raises OverflowError when
  the sum leaves the range.
\<close>

definition to_utc_rfc :: "pydatetime \<Rightarrow> error + string" where
  "to_utc_rfc dt =
     (let u = wall dt - utcoffset dt
      in if 0 \<le> u \<and> u < MAXSEC then Inr (strftime_utc u) else Inl OverflowError)"

definition add_minutes :: "pydatetime \<Rightarrow> int \<Rightarrow> error + pydatetime" where
  "add_minutes dt mins =
     (let w' = wall dt + 60 * mins
      in if 0 \<le> w' \<and> w' < MAXSEC then Inr (dt\<lparr>wall := w'\<rparr>) else Inl OverflowError)"

fun py_parse :: "world \<Rightarrow> json \<Rightarrow> error + parsed" where
  "py_parse w (JStr s) = parser_parse w s"
| "py_parse w _ = Inl TypeError"

text \<open>Lines 40-42: the text handed to the parser.\<close>

definition raw_text :: "pydict \<Rightarrow> json" where
  "raw_text event =
     (let date_str = dict_get event ''dateEvent'';
          time_str = dict_get event ''strTime''
      in if truthy time_str then JStr (py_str date_str @ '' '' @ py_str time_str)
         else date_str)"

definition make_dt :: "world \<Rightarrow> pydict \<Rightarrow> error + pydatetime" where
  "make_dt w event =
     (if \<not> truthy (dict_get event ''dateEvent'') then Inl (ValueError ''Event missing dateEvent'')
      else
        case py_parse w (raw_text event) of
          Inl e \<Rightarrow> Inl e
        | Inr (Aware wl tz) \<Rightarrow> Inr \<lparr>wall = wl, tzinfo = tz\<rparr>
        | Inr (Naive wl) \<Rightarrow>
            (case pytz_timezone w (DEFAULT_TZ w) of
               None \<Rightarrow> Inl UnknownTimeZoneError
             | Some localize \<Rightarrow>
                 (case localize wl of
                    Inl e \<Rightarrow> Inl e
                  | Inr off \<Rightarrow> Inr \<lparr>wall = wl, tzinfo = (\<lambda>reading. off)\<rparr>)))"

section \<open>\<^verbatim>\<open>build_vevent\<close> (lines 53-76)\<close>

text \<open>
  The model keeps the seven values the source computes (lines 54-63) as a record;
  \<open>vevent_text\<close> is the block of lines 65-76. The list the source accumulates is
  the \<open>vevent_text\<close> of the model's list.
\<close>

record vevent =
  uid :: string
  dtstamp :: string
  dtstart :: string
  dtend :: string
  summary :: string
  location :: string
  description :: string

definition vevent_text :: "vevent \<Rightarrow> string" where
  "vevent_text v = join_nl
     [''BEGIN:VEVENT'',
      ''UID:'' @ uid v,
      ''DTSTAMP:'' @ dtstamp v,
      ''DTSTART:'' @ dtstart v,
      ''DTEND:'' @ dtend v,
      ''SUMMARY:'' @ summary v,
      ''LOCATION:'' @ location v,
      ''DESCRIPTION:'' @ description v,
      ''END:VEVENT'']"

text \<open>\<^verbatim>\<open>int(x)\<close> on the value of \<^verbatim>\<open>duration_minutes\<close>.\<close>

fun py_int :: "world \<Rightarrow> json \<Rightarrow> error + int" where
  "py_int w (JInt n) = Inr n"
| "py_int w (JBool b) = Inr (if b then 1 else 0)"
| "py_int w (JStr s) = int_of_str w s"
| "py_int w JNull = Inl TypeError"

definition team_duration :: "world \<Rightarrow> pydict \<Rightarrow> error + int" where
  "team_duration w team = py_int w (dict_get_default team ''duration_minutes'' (JInt 120))"

text \<open>Line 61: the title is the event's own, or home and away joined by \<open>vs\<close>.\<close>

definition event_title :: "pydict \<Rightarrow> error + string" where
  "event_title event =
     (if truthy (dict_get event ''strEvent'') then Inr (py_str (dict_get event ''strEvent''))
      else case py_add (dict_get event ''strHomeTeam'') (JStr '' vs '') of
             Inl e \<Rightarrow> Inl e
           | Inr h \<Rightarrow> (case py_add h (dict_get event ''strAwayTeam'') of
                         Inl e \<Rightarrow> Inl e
                       | Inr t \<Rightarrow> Inr (py_str t)))"

definition event_summary :: "pydict \<Rightarrow> pydict \<Rightarrow> error + string" where
  "event_summary event team =
     (case event_title event of
        Inl e \<Rightarrow> Inl e
      | Inr t \<Rightarrow> Inr (strip (py_str (dict_get_default team ''sport_emoji'' (JStr [])) @ '' '' @ t)))"

definition event_location :: "pydict \<Rightarrow> string" where
  "event_location event =
     py_str (py_or (py_or (dict_get event ''strVenue'') (dict_get event ''strVenueLocation''))
                   (JStr []))"

definition event_description :: "pydict \<Rightarrow> string" where
  "event_description event = py_str (py_or (dict_get event ''strLeague'') (JStr []))"

text \<open>
  \<open>build_vevent w n event team\<close>: \<open>n\<close> is the number of clock readings taken so
  far in the run. The result is what the call returns or raises, and the number of
  readings after it: line 58 reads the clock once, when lines 54-57 have not raised.
\<close>

definition build_vevent :: "world \<Rightarrow> nat \<Rightarrow> pydict \<Rightarrow> pydict \<Rightarrow> (error + vevent) \<times> nat" where
  "build_vevent w n event team =
     (case make_dt w event of
        Inl e \<Rightarrow> (Inl e, n)
      | Inr dt \<Rightarrow>
     (case team_duration w team of
        Inl e \<Rightarrow> (Inl e, n)
      | Inr duration \<Rightarrow>
     (case to_utc_rfc dt of
        Inl e \<Rightarrow> (Inl e, n)
      | Inr start \<Rightarrow>
     (case add_minutes dt duration of
        Inl e \<Rightarrow> (Inl e, n)
      | Inr dt' \<Rightarrow>
     (case to_utc_rfc dt' of
        Inl e \<Rightarrow> (Inl e, n)
      | Inr end' \<Rightarrow>
     (let stamp = strftime_utc (utcnow w n) in
      case uid_for w event of
        Inl e \<Rightarrow> (Inl e, Suc n)
      | Inr u \<Rightarrow>
     (case event_summary event team of
        Inl e \<Rightarrow> (Inl e, Suc n)
      | Inr s \<Rightarrow>
          (Inr \<lparr>uid = u, dtstamp = stamp, dtstart = start, dtend = end', summary = s,
                location = event_location event,
                description = event_description event\<rparr>, Suc n))))))))"

section \<open>\<^verbatim>\<open>generate_calendar\<close> (lines 78-86) and \<^verbatim>\<open>main\<close> (lines 88-125)\<close>

definition generate_calendar :: "string list \<Rightarrow> string" where
  "generate_calendar all_vevents = join_nl
     ([''BEGIN:VCALENDAR'', ''VERSION:2.0'', ''PRODID:'' @ PRODID, ''CALSCALE:GREGORIAN'']
        @ all_vevents @ [''END:VCALENDAR''])"

record run_state =
  seen_uids :: "string set"
  vevents :: "vevent list"
  clock_reads :: nat

definition init_state :: run_state where
  "init_state = \<lparr>seen_uids = {}, vevents = [], clock_reads = 0\<rparr>"

text \<open>
  One pass of the inner loop body (lines 111-119): every exception is caught and the
  event skipped; the uid is added to the set before the block is built.
\<close>

definition process_event :: "world \<Rightarrow> pydict \<Rightarrow> run_state \<Rightarrow> pydict \<Rightarrow> run_state" where
  "process_event w team st ev =
     (case uid_for w ev of
        Inl e \<Rightarrow> st
      | Inr u \<Rightarrow>
          if u \<in> seen_uids st then st
          else
            let st1 = st\<lparr>seen_uids := insert u (seen_uids st)\<rparr>
            in case build_vevent w (clock_reads st1) ev team of
                 (Inl e, n) \<Rightarrow> st1\<lparr>clock_reads := n\<rparr>
               | (Inr v, n) \<Rightarrow> st1\<lparr>vevents := vevents st1 @ [v], clock_reads := n\<rparr>)"

fun process_events :: "world \<Rightarrow> pydict \<Rightarrow> run_state \<Rightarrow> pydict list \<Rightarrow> run_state" where
  "process_events w team st [] = st"
| "process_events w team st (ev # evs) = process_events w team (process_event w team st ev) evs"

text \<open>
  The outer loop (lines 97-119). \<^verbatim>\<open>team["team_id"]\<close> is outside every \<^verbatim>\<open>try\<close>:
  a team without the key ends the run with KeyError. A failed fetch and an empty
  answer both go on to the next team.
\<close>

fun run_teams :: "world \<Rightarrow> run_state \<Rightarrow> pydict list \<Rightarrow> error + run_state" where
  "run_teams w st [] = Inr st"
| "run_teams w st (team # teams) =
     (case team ''team_id'' of
        None \<Rightarrow> Inl KeyError
      | Some team_id \<Rightarrow>
          (case requests_get w team_id of
             Inl e \<Rightarrow> run_teams w st teams
           | Inr events \<Rightarrow>
               if events = [] then run_teams w st teams
               else run_teams w (process_events w team st events) teams))"

text \<open>
  \<open>main\<close> on the team list read from \<^verbatim>\<open>teams.json\<close>: the text written to
  \<^verbatim>\<open>docs/all.ics\<close>, or the exception that ends the run.
\<close>

definition main :: "world \<Rightarrow> pydict list \<Rightarrow> error + string" where
  "main w teams =
     (case run_teams w init_state teams of
        Inl e \<Rightarrow> Inl e
      | Inr st \<Rightarrow> Inr (generate_calendar (map vevent_text (vevents st))))"


text \<open>
  The run as one loop over the (team, event) pairs in fetch order: teams in configured
  order, each team's events in the order the adapter returned them. These three are
  not in the source; the nested loops are proved equal to the flat one.
\<close>

definition fetch_order :: "world \<Rightarrow> pydict list \<Rightarrow> (pydict \<times> pydict) list" where
  "fetch_order w teams = concat (map (\<lambda>team.
      case team ''team_id'' of
        None \<Rightarrow> []
      | Some team_id \<Rightarrow> (case requests_get w team_id of
                           Inl e \<Rightarrow> []
                         | Inr events \<Rightarrow> map (Pair team) events)) teams)"

fun process_pairs :: "world \<Rightarrow> run_state \<Rightarrow> (pydict \<times> pydict) list \<Rightarrow> run_state" where
  "process_pairs w st [] = st"
| "process_pairs w st ((team, ev) # xs) = process_pairs w (process_event w team st ev) xs"

definition renders :: "world \<Rightarrow> pydict \<Rightarrow> pydict \<Rightarrow> bool" where
  "renders w event team = (case fst (build_vevent w 0 event team) of Inl e \<Rightarrow> False | Inr v \<Rightarrow> True)"

text \<open>
  The uids the events of a list derive, in order; the blocks of a state that carry a
  given uid; and the two invariants of the run: every block's uid is marked seen and no
  two blocks share one, and the blocks' DTSTAMPs render increasing clock readings.
\<close>

definition derived_uids :: "world \<Rightarrow> (pydict \<times> pydict) list \<Rightarrow> string list" where
  "derived_uids w xs =
     concat (map (\<lambda>(team, ev). case uid_for w ev of Inl e \<Rightarrow> [] | Inr u \<Rightarrow> [u]) xs)"

definition blocks_with_uid :: "string \<Rightarrow> run_state \<Rightarrow> vevent list" where
  "blocks_with_uid u st = filter (\<lambda>v. uid v = u) (vevents st)"

definition state_ok :: "run_state \<Rightarrow> bool" where
  "state_ok st = (uid ` set (vevents st) \<subseteq> seen_uids st \<and> distinct (map uid (vevents st)))"

definition stamps_ok :: "world \<Rightarrow> run_state \<Rightarrow> bool" where
  "stamps_ok w st =
     (\<exists>ks. map dtstamp (vevents st) = map (\<lambda>k. strftime_utc (utcnow w k)) ks
          \<and> sorted_wrt (<) ks \<and> list_all (\<lambda>k. k < clock_reads st) ks)"

section \<open>A sample world and sample fixtures\<close>

text \<open>
  Concrete inputs on which the functions are evaluated. \<open>sample_parse\<close> answers
  as dateutil does on the texts it knows, on a machine whose local zone is Central
  European (\<open>sample_tzlocal\<close>, with its switch to summer time on 2026-03-29 at
  02:00), and refuses every other text; the sample \<^verbatim>\<open>int()\<close> knows one numeral
  and refuses plain text as Python does; the sample clock advances one second per
  reading from 2026-11-04T12:00:00.
\<close>

definition sample_tzlocal :: "int \<Rightarrow> int" where
  "sample_tzlocal reading = (if reading < civil_seconds 2026 3 29 2 0 0 then 3600 else 7200)"


definition sample_parse :: "string \<Rightarrow> error + parsed" where
  "sample_parse s =
     (if s = ''2026-03-12 19:30:00'' then Inr (Naive (civil_seconds 2026 3 12 19 30 0))
      else if s = ''2026-03-12 19:30:00+02:00''
        then Inr (Aware (civil_seconds 2026 3 12 19 30 0) (\<lambda>reading. 7200))
      else if s = ''2026-03-14'' then Inr (Naive (civil_seconds 2026 3 14 0 0 0))
      else if s = ''0999-06-15 10:00:00'' then Inr (Naive (civil_seconds 999 6 15 10 0 0))
      else if s = ''2026-03-29 01:30:00 CET''
        then Inr (Aware (civil_seconds 2026 3 29 1 30 0) sample_tzlocal)
      else Inl ParserError)"

definition sample_world :: world where
  "sample_world =
     \<lparr>environ = Map.empty,
      pytz_timezone = (\<lambda>name. if name = ''UTC'' then Some (\<lambda>wl. Inr 0) else None),
      parser_parse = sample_parse,
      int_of_str = (\<lambda>s. if s = ''90'' then Inr 90
                        else Inl (ValueError (''invalid literal for int() with base 10: ''
                                              @ [CHR 0x27] @ s @ [CHR 0x27]))),
      requests_get = (\<lambda>team_id. Inl RequestError),
      utcnow = (\<lambda>k. civil_seconds 2026 11 4 12 0 0 + int k)\<rparr>"

definition team_a :: pydict where
  "team_a = [''team_id'' \<mapsto> JStr ''133604'', ''name'' \<mapsto> JStr ''Arsenal'']"

definition team_b :: pydict where
  "team_b = [''team_id'' \<mapsto> JStr ''133610'', ''name'' \<mapsto> JStr ''Chelsea'',
             ''duration_minutes'' \<mapsto> JInt 90, ''sport_emoji'' \<mapsto> JStr ''(F)'']"

definition fixture_a :: pydict where
  "fixture_a =
     [''idEvent'' \<mapsto> JStr ''2052711'', ''strLeague'' \<mapsto> JStr ''English Premier League'',
      ''strEvent'' \<mapsto> JStr ''Arsenal vs Everton'', ''dateEvent'' \<mapsto> JStr ''2026-03-12'',
      ''strTime'' \<mapsto> JStr ''19:30:00'', ''strVenue'' \<mapsto> JStr ''Emirates Stadium'']"

definition fixture_b :: pydict where
  "fixture_b =
     [''idEvent'' \<mapsto> JStr ''2052712'', ''strLeague'' \<mapsto> JStr ''English Premier League'',
      ''strHomeTeam'' \<mapsto> JStr ''Arsenal'', ''strAwayTeam'' \<mapsto> JStr ''Chelsea'',
      ''dateEvent'' \<mapsto> JStr ''2026-03-12'', ''strTime'' \<mapsto> JStr ''19:30:00+02:00'']"





definition vevent_a :: "string \<Rightarrow> vevent" where
  "vevent_a stamp =
     \<lparr>uid = ''English_Premier_League-2052711@github.io'', dtstamp = stamp,
      dtstart = ''20260312T193000Z'', dtend = ''20260312T213000Z'',
      summary = ''Arsenal vs Everton'', location = ''Emirates Stadium'',
      description = ''English Premier League''\<rparr>"

definition vevent_b :: "string \<Rightarrow> vevent" where
  "vevent_b stamp =
     \<lparr>uid = ''English_Premier_League-2052712@github.io'', dtstamp = stamp,
      dtstart = ''20260312T173000Z'', dtend = ''20260312T190000Z'',
      summary = ''(F) Arsenal vs Chelsea'', location = [],
      description = ''English Premier League''\<rparr>"

text \<open>
  The uid as the specification words it, to compare with \<open>uid_for\<close>: a field is
  present when the event has it with a value other than null; the league is the name
  with spaces replaced, or \<open>league\<close> when absent; the identifier is the first present
  of \<open>idEvent\<close> and \<open>id\<close>, and there is no uid when neither is.
\<close>

definition present :: "pydict \<Rightarrow> string \<Rightarrow> bool" where
  "present d k = (case d k of None \<Rightarrow> False | Some JNull \<Rightarrow> False | Some v \<Rightarrow> True)"

definition uid_as_specified :: "world \<Rightarrow> pydict \<Rightarrow> string option" where
  "uid_as_specified w event =
     (let league = (if present event ''strLeague''
                    then str_replace_char CHR '' '' CHR ''_'' (py_str (dict_get event ''strLeague''))
                    else ''league'');
          domain = (case environ w ''ICS_DOMAIN'' of None \<Rightarrow> ''github.io'' | Some s \<Rightarrow> s)
      in if present event ''idEvent''
           then Some (league @ ''-'' @ py_str (dict_get event ''idEvent'') @ ''@'' @ domain)
         else if present event ''id''
           then Some (league @ ''-'' @ py_str (dict_get event ''id'') @ ''@'' @ domain)
         else None)"

text \<open>The instants a datetime can hold.\<close>

definition in_range :: "int \<Rightarrow> bool" where
  "in_range x = (0 \<le> x \<and> x < MAXSEC)"

definition fixture_zero_id :: pydict where
  "fixture_zero_id = [''strLeague'' \<mapsto> JStr ''NBA'', ''idEvent'' \<mapsto> JInt 0, ''id'' \<mapsto> JStr ''7'']"

definition fixture_noid :: pydict where
  "fixture_noid = [''strLeague'' \<mapsto> JStr ''NBA'', ''strEvent'' \<mapsto> JStr ''Lakers vs Celtics'',
                   ''dateEvent'' \<mapsto> JStr ''2026-03-14'']"

definition fixture_notitle :: pydict where
  "fixture_notitle = [''idEvent'' \<mapsto> JStr ''2052715'', ''strLeague'' \<mapsto> JStr ''NBA'',
                      ''dateEvent'' \<mapsto> JStr ''2026-03-14'']"

definition vevent_noid :: "string \<Rightarrow> vevent" where
  "vevent_noid stamp =
     \<lparr>uid = ''NBA-None@github.io'', dtstamp = stamp,
      dtstart = ''20260314T000000Z'', dtend = ''20260314T020000Z'',
      summary = ''Lakers vs Celtics'', location = [], description = ''NBA''\<rparr>"

text \<open>
  Further fixtures: a dateless fixture, a fixture and its dateless twin (same uid), a
  team whose fetch fails, and two adapters: one in which two teams share a fixture, one
  that returns the dateless twin first. \<open>st_two\<close>, \<open>st_shared\<close>,
  \<open>st_one\<close> and \<open>st_dup\<close> are the states the runs below end in.
\<close>

definition team_x :: pydict where
  "team_x = [''team_id'' \<mapsto> JStr ''000000'', ''name'' \<mapsto> JStr ''Nobody'']"

definition fixture_c :: pydict where
  "fixture_c = [''idEvent'' \<mapsto> JStr ''2052714'', ''strLeague'' \<mapsto> JStr ''NBA'',
                ''strEvent'' \<mapsto> JStr ''Lakers vs Celtics'', ''dateEvent'' \<mapsto> JStr ''2026-03-14'']"

definition fixture_c_bad :: pydict where
  "fixture_c_bad = [''idEvent'' \<mapsto> JStr ''2052714'', ''strLeague'' \<mapsto> JStr ''NBA'',
                    ''strEvent'' \<mapsto> JStr ''Lakers vs Celtics'']"

definition fixture_nodate :: pydict where
  "fixture_nodate = [''idEvent'' \<mapsto> JStr ''2052713'', ''strLeague'' \<mapsto> JStr ''NBA'',
                     ''strEvent'' \<mapsto> JStr ''Lakers vs Knicks'']"

definition vevent_c :: "string \<Rightarrow> vevent" where
  "vevent_c stamp =
     \<lparr>uid = ''NBA-2052714@github.io'', dtstamp = stamp,
      dtstart = ''20260314T000000Z'', dtend = ''20260314T020000Z'',
      summary = ''Lakers vs Celtics'', location = [], description = ''NBA''\<rparr>"

definition feed_shared :: "json \<Rightarrow> error + pydict list" where
  "feed_shared team_id =
     (if team_id = JStr ''133604'' then Inr [fixture_a, fixture_c]
      else if team_id = JStr ''133610'' then Inr [fixture_a, fixture_b]
      else Inl RequestError)"

definition feed_dup :: "json \<Rightarrow> error + pydict list" where
  "feed_dup team_id =
     (if team_id = JStr ''133604'' then Inr [fixture_c_bad, fixture_c] else Inl RequestError)"

definition world_shared :: world where
  "world_shared = sample_world\<lparr>requests_get := feed_shared\<rparr>"

definition world_dup :: world where
  "world_dup = sample_world\<lparr>requests_get := feed_dup\<rparr>"

definition st_two :: run_state where
  "st_two =
     \<lparr>seen_uids = {''NBA-2052714@github.io'', ''English_Premier_League-2052711@github.io''},
      vevents = [vevent_a ''20261104T120000Z'', vevent_c ''20261104T120001Z''],
      clock_reads = 2\<rparr>"

definition st_shared :: run_state where
  "st_shared =
     \<lparr>seen_uids = {''English_Premier_League-2052712@github.io'', ''NBA-2052714@github.io'',
                   ''English_Premier_League-2052711@github.io''},
      vevents = [vevent_a ''20261104T120000Z'', vevent_c ''20261104T120001Z'',
                 vevent_b ''20261104T120002Z''],
      clock_reads = 3\<rparr>"

definition st_one :: run_state where
  "st_one =
     \<lparr>seen_uids = {''NBA-2052714@github.io'', ''English_Premier_League-2052711@github.io''},
      vevents = [vevent_a ''20261104T120000Z''],
      clock_reads = 1\<rparr>"

definition st_dup :: run_state where
  "st_dup = \<lparr>seen_uids = {''NBA-2052714@github.io''}, vevents = [], clock_reads = 0\<rparr>"

section \<open>The calendar: days and dates determine each other\<close>

lemma mod_facts:
  fixes n :: nat
  shows "n mod 100 = 0 \<Longrightarrow> n mod 4 = 0" and "n mod 400 = 0 \<Longrightarrow> n mod 100 = 0"
  by presburger+

lemma dby_Suc: "1 \<le> y \<Longrightarrow> days_before_year (Suc y) = days_before_year y + days_in_year y"
proof -
  assume "1 \<le> y"
  then obtain z where y: "y = Suc z" by (cases y) auto
  have le: "z div 100 \<le> z div 4" by (rule div_le_mono2) simp_all
  have a: "Suc z mod 100 = 0 \<Longrightarrow> Suc z mod 4 = 0"
    by (rule mod_facts(1))
  have b: "Suc z mod 400 = 0 \<Longrightarrow> Suc z mod 100 = 0"
    by (rule mod_facts(2))
  show ?thesis
    unfolding y days_before_year_def days_in_year_def is_leap_def Let_def
    using le a b by (auto simp: div_Suc add_ac)
qed

lemma dby_cycle: "days_before_year (Suc (400 * k)) = 146097 * k"
  unfolding days_before_year_def Let_def by simp

lemma dby_mono: "1 \<le> a \<Longrightarrow> a \<le> b \<Longrightarrow> days_before_year a \<le> days_before_year b"
proof (induction b)
  case 0
  then show ?case by simp
next
  case (Suc b)
  show ?case
  proof (cases "a = Suc b")
    case True
    then show ?thesis by simp
  next
    case False
    with Suc.prems have ab: "a \<le> b" by simp
    with Suc.prems have "1 \<le> b" by simp
    then have "days_before_year b \<le> days_before_year (Suc b)" by (simp add: dby_Suc)
    with Suc.IH [OF Suc.prems(1) ab] show ?thesis by simp
  qed
qed

lemma find_year_inv:
  "1 \<le> y \<Longrightarrow> find_year y n = (y', r) \<Longrightarrow>
     days_before_year y' + r = days_before_year y + n \<and> r < days_in_year y' \<and> y \<le> y'"
proof (induction y n rule: find_year.induct)
  case (1 y n)
  show ?case
  proof (cases "n < days_in_year y")
    case True
    with "1.prems" show ?thesis by (simp add: find_year.simps)
  next
    case False
    with "1.prems" have fy: "find_year (Suc y) (n - days_in_year y) = (y', r)"
      by (simp add: find_year.simps)
    from "1.IH" [OF False _ fy] "1.prems" False show ?thesis
      by (simp add: dby_Suc)
  qed
qed

lemma dbm_Suc:
  "1 \<le> m \<Longrightarrow> days_before_month y (Suc m) = days_before_month y m + days_in_month y m"
  by (simp add: days_before_month_def)

lemma dfm_Suc:
  "m \<le> 12 \<Longrightarrow> days_from_month y m = days_in_month y m + days_from_month y (Suc m)"
  by (simp add: days_from_month_def upt_conv_Cons)

lemma dfm_1: "days_from_month y (Suc 0) = days_in_year y"
  by (simp add: days_from_month_def days_in_month_def days_in_year_def upt_conv_Cons)

lemma find_month_inv:
  "1 \<le> m \<Longrightarrow> m \<le> 12 \<Longrightarrow> n < days_from_month y m \<Longrightarrow> find_month y m n = (m', d) \<Longrightarrow>
     days_before_month y m' + d = days_before_month y m + n \<and> d < days_in_month y m'
       \<and> m \<le> m' \<and> m' \<le> 12"
proof (induction y m n rule: find_month.induct)
  case (1 y m n)
  show ?case
  proof (cases "12 \<le> m \<or> n < days_in_month y m")
    case True
    with "1.prems" have eq: "m' = m" "d = n" by (simp_all add: find_month.simps)
    from True "1.prems" have "n < days_in_month y m"
      by (auto simp: days_from_month_def)
    with eq "1.prems" show ?thesis by simp
  next
    case False
    with "1.prems" have fm: "find_month y (Suc m) (n - days_in_month y m) = (m', d)"
      by (simp add: find_month.simps)
    from False "1.prems" dfm_Suc [of m y]
    have lt: "n - days_in_month y m < days_from_month y (Suc m)"
      by arith
    from False have "Suc m \<le> 12" by simp
    from "1.IH" [OF False _ this lt fm] "1.prems" False show ?thesis
      by (simp add: dbm_Suc)
  qed
qed

lemma ord2ymd_inv:
  assumes "ord2ymd n = (y, m, d)"
  shows "ymd2ord y m d = n" and "1 \<le> y" and "1 \<le> m" and "m \<le> 12" and "1 \<le> d"
    and "d \<le> days_in_month y m" and "days_before_year y \<le> n"
    and "n < days_before_year (Suc y)"
proof -
  obtain y' r where fy: "find_year (400 * (n div 146097) + 1) (n mod 146097) = (y', r)"
    by (cases "find_year (400 * (n div 146097) + 1) (n mod 146097)")
  obtain m' d' where fm: "find_month y' 1 r = (m', d')"
    by (cases "find_month y' 1 r")
  from assms fy fm have eq: "y = y'" "m = m'" "d = d' + 1"
    by (simp_all add: ord2ymd_def)
  have yi: "days_before_year y' + r = n" "r < days_in_year y'" "1 \<le> y'"
    using find_year_inv [OF _ fy] by (simp_all add: dby_cycle)
  have mi: "days_before_month y' m' + d' = r" "d' < days_in_month y' m'" "1 \<le> m'" "m' \<le> 12"
    using find_month_inv [OF _ _ _ fm] yi(2) by (simp_all add: dfm_1 days_before_month_def)
  show "ymd2ord y m d = n" using yi(1) mi(1) by (simp add: eq ymd2ord_def)
  show "1 \<le> y" "1 \<le> m" "m \<le> 12" "1 \<le> d" "d \<le> days_in_month y m"
    using yi mi by (simp_all add: eq)
  show "days_before_year y \<le> n" using yi(1) by (simp add: eq)
  show "n < days_before_year (Suc y)" using yi by (simp add: eq dby_Suc)
qed




section \<open>The rendered text determines the instant\<close>











lemma length_show_nat_lt_4:
  assumes "n < 1000"
  shows "length (show_nat n) < 4"
proof -
  have b: "\<And>k. k < 10 \<Longrightarrow> length (show_nat k) = 1" by (subst show_nat.simps) simp
  have c: "\<And>k. \<not> k < 10 \<Longrightarrow> length (show_nat k) = Suc (length (show_nat (k div 10)))"
    by (subst show_nat.simps) simp
  show ?thesis
  proof (cases "n < 10")
    case True
    then show ?thesis by (simp add: b)
  next
    case n: False
    show ?thesis
    proof (cases "n div 10 < 10")
      case True
      then show ?thesis using n by (simp add: b c)
    next
      case False
      have "n div 10 div 10 < 10" using assms by simp
      then show ?thesis using n False by (simp add: b c)
    qed
  qed
qed

lemma length_digits2 [simp]: "length (digits2 n) = 2"
  by (simp add: digits2_def)


lemma length_rfc_text: "length (rfc_text y m d H M S) = length (show_nat y) + 12"
  by (simp add: rfc_text_def)


lemma not_rfc_utc_text:
  assumes "y < 1000"
  shows "\<not> is_rfc_utc (rfc_text y m d H M S)"
  using length_show_nat_lt_4 [OF assms] by (simp add: is_rfc_utc_def length_rfc_text)


lemma strftime_utc_text:
  "\<exists>y m d. ord2ymd (nat s div 86400) = (y, m, d) \<and>
     strftime_utc s = rfc_text y m d (nat s mod 86400 div 3600) (nat s mod 86400 mod 3600 div 60)
                        (nat s mod 86400 mod 60)"
  by (cases "ord2ymd (nat s div 86400)") (simp add: strftime_utc_def Let_def)


lemma not_rfc_utc_strftime:
  assumes "0 \<le> s" and "s < FOUR_DIGIT_YEARS"
  shows "\<not> is_rfc_utc (strftime_utc s)"
proof -
  from strftime_utc_text [of s] obtain y m d where
    o: "ord2ymd (nat s div 86400) = (y, m, d)" and
    t: "strftime_utc s = rfc_text y m d (nat s mod 86400 div 3600)
          (nat s mod 86400 mod 3600 div 60) (nat s mod 86400 mod 60)"
    by blast
  from assms have "nat s < 364877 * 86400" by (simp add: FOUR_DIGIT_YEARS_def)
  then have n: "nat s div 86400 < 364877" by simp
  have "y < 1000"
  proof (rule ccontr)
    assume "\<not> y < 1000"
    then have "days_before_year 1000 \<le> days_before_year y" by (intro dby_mono) simp_all
    moreover have "days_before_year 1000 = 364877" by (simp add: days_before_year_def)
    ultimately show False using ord2ymd_inv(7) [OF o] n by simp
  qed
  then show ?thesis unfolding t by (rule not_rfc_utc_text)
qed


section \<open>What a built block records\<close>

lemma build_vevent_Inr:
  assumes "build_vevent w n event team = (Inr v, n')"
  shows "\<exists>dt d dt'. make_dt w event = Inr dt \<and> team_duration w team = Inr d
           \<and> to_utc_rfc dt = Inr (dtstart v) \<and> add_minutes dt d = Inr dt'
           \<and> to_utc_rfc dt' = Inr (dtend v) \<and> uid_for w event = Inr (uid v)
           \<and> event_summary event team = Inr (summary v)
           \<and> dtstamp v = strftime_utc (utcnow w n) \<and> n' = Suc n"
  using assms unfolding build_vevent_def
  by (auto split: sum.splits simp: Let_def)

lemma build_vevent_eval:
  assumes "make_dt w event = Inr dt" and "team_duration w team = Inr d"
    and "to_utc_rfc dt = Inr s" and "add_minutes dt d = Inr dt'" and "to_utc_rfc dt' = Inr e"
    and "uid_for w event = Inr u" and "event_summary event team = Inr sm"
  shows "build_vevent w n event team =
           (Inr \<lparr>uid = u, dtstamp = strftime_utc (utcnow w n), dtstart = s, dtend = e,
                 summary = sm, location = event_location event,
                 description = event_description event\<rparr>, Suc n)"
  using assms by (simp add: build_vevent_def)

lemma to_utc_rfc_Inr:
  assumes "to_utc_rfc dt = Inr s"
  shows "s = strftime_utc (wall dt - tzinfo dt (wall dt))" and "in_range (wall dt - tzinfo dt (wall dt))"
  using assms unfolding to_utc_rfc_def utcoffset_def in_range_def
  by (auto simp: Let_def split: if_splits)



lemma add_minutes_Inr:
  assumes "add_minutes dt d = Inr dt'"
  shows "wall dt' = wall dt + 60 * d" and "tzinfo dt' = tzinfo dt" and "in_range (wall dt + 60 * d)"
  using assms unfolding add_minutes_def in_range_def by (auto simp: Let_def split: if_splits)


lemma event_title_Inr:
  assumes "event_title event = Inr t"
  shows "truthy (dict_get event ''strEvent'')
         \<or> (\<exists>h a. dict_get event ''strHomeTeam'' = JStr h \<and> dict_get event ''strAwayTeam'' = JStr a)"
proof (cases "truthy (dict_get event ''strEvent'')")
  case True
  then show ?thesis by simp
next
  case False
  with assms obtain x where
    h: "py_add (dict_get event ''strHomeTeam'') (JStr '' vs '') = Inr x"
    and a: "py_add x (dict_get event ''strAwayTeam'') \<noteq> Inl TypeError"
    by (auto simp: event_title_def split: sum.splits)
  from h obtain hs where hs: "dict_get event ''strHomeTeam'' = JStr hs" "x = JStr (hs @ '' vs '')"
    by (cases "dict_get event ''strHomeTeam''") auto
  from a hs obtain as where "dict_get event ''strAwayTeam'' = JStr as"
    by (cases "dict_get event ''strAwayTeam''") auto
  with hs show ?thesis by simp
qed

section \<open>The sample fixtures, evaluated\<close>

lemmas calendar_eval = civil_seconds_def ymd2ord_def days_before_year_def days_before_month_def
  days_in_month_def days_in_year_def is_leap_def upt_conv_Cons strftime_utc_def ord2ymd_def
  find_year.simps find_month.simps rfc_text_def show_nat.simps digits2_def digit_char_def

lemma civil_20260312_1930: "civil_seconds 2026 3 12 19 30 0 = 63908940600"
  by (simp add: calendar_eval)

lemma strftime_20260312_1930: "strftime_utc 63908940600 = ''20260312T193000Z''"
  by (simp add: calendar_eval)

lemma strftime_20260312_2130: "strftime_utc 63908947800 = ''20260312T213000Z''"
  by (simp add: calendar_eval)

lemma strftime_20260312_1730: "strftime_utc 63908933400 = ''20260312T173000Z''"
  by (simp add: calendar_eval)

lemma strftime_20260312_1900: "strftime_utc 63908938800 = ''20260312T190000Z''"
  by (simp add: calendar_eval)

lemma sample_now: "strftime_utc (utcnow sample_world 0) = ''20261104T120000Z''"
  by (simp add: sample_world_def calendar_eval)

lemma parse_fixture_a: "py_parse sample_world (raw_text fixture_a) = Inr (Naive 63908940600)"
  by (simp add: raw_text_def dict_get_def fixture_a_def sample_world_def sample_parse_def
      civil_20260312_1930)

lemma parse_fixture_b: "py_parse sample_world (raw_text fixture_b) = Inr (Aware 63908940600 (\<lambda>reading. 7200))"
  by (simp add: raw_text_def dict_get_def fixture_b_def sample_world_def sample_parse_def
      civil_20260312_1930)

lemma make_dt_fixture_a:
  "make_dt sample_world fixture_a = Inr \<lparr>wall = 63908940600, tzinfo = (\<lambda>reading. 0)\<rparr>"
proof -
  have "truthy (dict_get fixture_a ''dateEvent'')" by (simp add: dict_get_def fixture_a_def)
  moreover have "pytz_timezone sample_world (DEFAULT_TZ sample_world) = Some (\<lambda>wl. Inr 0)"
    by (simp add: sample_world_def DEFAULT_TZ_def)
  ultimately show ?thesis by (simp add: make_dt_def parse_fixture_a)
qed

lemma make_dt_fixture_b:
  "make_dt sample_world fixture_b = Inr \<lparr>wall = 63908940600, tzinfo = (\<lambda>reading. 7200)\<rparr>"
proof -
  have "truthy (dict_get fixture_b ''dateEvent'')" by (simp add: dict_get_def fixture_b_def)
  then show ?thesis by (simp add: make_dt_def parse_fixture_b)
qed

lemma uid_fixture_a:
  "uid_for sample_world fixture_a = Inr ''English_Premier_League-2052711@github.io''"
  by (simp add: uid_for_def dict_get_def fixture_a_def py_or_def str_replace_char_def
      UID_DOMAIN_def sample_world_def)

lemma uid_fixture_b:
  "uid_for sample_world fixture_b = Inr ''English_Premier_League-2052712@github.io''"
  by (simp add: uid_for_def dict_get_def fixture_b_def py_or_def str_replace_char_def
      UID_DOMAIN_def sample_world_def)

lemma summary_fixture_a: "event_summary fixture_a team_a = Inr ''Arsenal vs Everton''"
  by (simp add: event_summary_def event_title_def dict_get_def dict_get_default_def
      fixture_a_def team_a_def strip_def is_space_def)

lemma summary_fixture_b: "event_summary fixture_b team_b = Inr ''(F) Arsenal vs Chelsea''"
  by (simp add: event_summary_def event_title_def dict_get_def dict_get_default_def
      fixture_b_def team_b_def strip_def is_space_def)

lemma duration_team_a: "team_duration w team_a = Inr 120"
  by (simp add: team_duration_def dict_get_default_def team_a_def)

lemma duration_team_b: "team_duration w team_b = Inr 90"
  by (simp add: team_duration_def dict_get_default_def team_b_def)

lemma build_fixture_a:
  "build_vevent sample_world n fixture_a team_a
     = (Inr (vevent_a (strftime_utc (utcnow sample_world n))), Suc n)"
proof -
  have l: "event_location fixture_a = ''Emirates Stadium''"
    by (simp add: event_location_def dict_get_def fixture_a_def py_or_def)
  have d: "event_description fixture_a = ''English Premier League''"
    by (simp add: event_description_def dict_get_def fixture_a_def py_or_def)
  have s: "to_utc_rfc \<lparr>wall = 63908940600, tzinfo = (\<lambda>reading. 0)\<rparr> = Inr ''20260312T193000Z''"
    by (simp add: to_utc_rfc_def utcoffset_def MAXSEC_def strftime_20260312_1930)
  have a: "add_minutes \<lparr>wall = 63908940600, tzinfo = (\<lambda>reading. 0)\<rparr> 120
             = Inr \<lparr>wall = 63908947800, tzinfo = (\<lambda>reading. 0)\<rparr>"
    by (simp add: add_minutes_def MAXSEC_def)
  have e: "to_utc_rfc \<lparr>wall = 63908947800, tzinfo = (\<lambda>reading. 0)\<rparr> = Inr ''20260312T213000Z''"
    by (simp add: to_utc_rfc_def utcoffset_def MAXSEC_def strftime_20260312_2130)
  show ?thesis
    unfolding build_vevent_eval [OF make_dt_fixture_a duration_team_a s a e uid_fixture_a
        summary_fixture_a]
    by (simp add: vevent_a_def l d)
qed

lemma build_fixture_b:
  "build_vevent sample_world n fixture_b team_b
     = (Inr (vevent_b (strftime_utc (utcnow sample_world n))), Suc n)"
proof -
  have l: "event_location fixture_b = []"
    by (simp add: event_location_def dict_get_def fixture_b_def py_or_def)
  have d: "event_description fixture_b = ''English Premier League''"
    by (simp add: event_description_def dict_get_def fixture_b_def py_or_def)
  have s: "to_utc_rfc \<lparr>wall = 63908940600, tzinfo = (\<lambda>reading. 7200)\<rparr> = Inr ''20260312T173000Z''"
    by (simp add: to_utc_rfc_def utcoffset_def MAXSEC_def strftime_20260312_1730)
  have a: "add_minutes \<lparr>wall = 63908940600, tzinfo = (\<lambda>reading. 7200)\<rparr> 90
             = Inr \<lparr>wall = 63908946000, tzinfo = (\<lambda>reading. 7200)\<rparr>"
    by (simp add: add_minutes_def MAXSEC_def)
  have e: "to_utc_rfc \<lparr>wall = 63908946000, tzinfo = (\<lambda>reading. 7200)\<rparr> = Inr ''20260312T190000Z''"
    by (simp add: to_utc_rfc_def utcoffset_def MAXSEC_def strftime_20260312_1900)
  show ?thesis
    unfolding build_vevent_eval [OF make_dt_fixture_b duration_team_b s a e uid_fixture_b
        summary_fixture_b]
    by (simp add: vevent_b_def l d)
qed

section \<open>Claims about the normalizer and the rendered instants\<close>










section \<open>Claims about the uid\<close>

lemma uid_zero_id: "uid_for sample_world fixture_zero_id = Inr ''NBA-7@github.io''"
  by (simp add: uid_for_def dict_get_def fixture_zero_id_def py_or_def str_replace_char_def
      UID_DOMAIN_def sample_world_def)

text \<open>
  C3, as stated, fails: an event whose \<open>idEvent\<close> is present with the value 0 and
  whose \<open>id\<close> is 7 gets the uid built from \<open>id\<close>, not from the first present
  field.
\<close>

theorem uid_first_present_counterexample:
  "fixture_zero_id ''idEvent'' = Some (JInt 0)
   \<and> uid_as_specified sample_world fixture_zero_id = Some ''NBA-0@github.io''
   \<and> uid_for sample_world fixture_zero_id = Inr ''NBA-7@github.io''
   \<and> uid_for sample_world fixture_zero_id \<noteq> Inr ''NBA-0@github.io''"
proof -
  have "uid_as_specified sample_world fixture_zero_id = Some ''NBA-0@github.io''"
    by (simp add: uid_as_specified_def present_def dict_get_def fixture_zero_id_def
        str_replace_char_def sample_world_def show_int_def show_nat.simps digit_char_def)
  moreover have "fixture_zero_id ''idEvent'' = Some (JInt 0)"
    by (simp add: fixture_zero_id_def)
  ultimately show ?thesis by (simp add: uid_zero_id)
qed

text \<open>
  C3, amended. For every raw event whose league name is missing, null, empty or text,
  the uid is the league, a hyphen, the eventId, an at sign and the domain: league is the name with every space
  replaced by an underscore, or \<open>league\<close> when the name is missing, null or empty;
  eventId is the text of \<open>idEvent\<close> unless that is missing, null, empty, zero or
  false, and then the text of \<open>id\<close> (\<open>None\<close> when \<open>id\<close> is missing too);
  domain is \<open>ICS_DOMAIN\<close> of the environment, \<open>github.io\<close> when unset.
\<close>

theorem uid_for_formula:
  assumes "\<not> truthy (dict_get event ''strLeague'') \<or> (\<exists>s. dict_get event ''strLeague'' = JStr s)"
  shows "uid_for w event =
     Inr ((case dict_get event ''strLeague'' of
             JStr s \<Rightarrow> if s = [] then ''league'' else str_replace_char CHR '' '' CHR ''_'' s
           | _ \<Rightarrow> ''league'')
          @ ''-''
          @ py_str (if truthy (dict_get event ''idEvent'') then dict_get event ''idEvent''
                    else dict_get event ''id'')
          @ ''@''
          @ (case environ w ''ICS_DOMAIN'' of None \<Rightarrow> ''github.io'' | Some d \<Rightarrow> d))"
proof -
  have eid: "py_or (dict_get event ''idEvent'') (dict_get event ''id'')
               = (if truthy (dict_get event ''idEvent'') then dict_get event ''idEvent''
                  else dict_get event ''id'')"
    by (simp add: py_or_def)
  have league: "py_replace_space (py_or (dict_get event ''strLeague'') (JStr ''league''))
                  = Inr (case dict_get event ''strLeague'' of
                           JStr s \<Rightarrow> if s = [] then ''league''
                                     else str_replace_char CHR '' '' CHR ''_'' s
                         | _ \<Rightarrow> ''league'')"
  proof (cases "dict_get event ''strLeague''")
    case (JStr s)
    then show ?thesis by (simp add: py_or_def str_replace_char_def)
  qed (use assms in \<open>auto simp: py_or_def str_replace_char_def\<close>)
  show ?thesis
    unfolding uid_for_def league eid UID_DOMAIN_def by simp
qed

theorem uid_for_formula_witness:
  "dict_get fixture_zero_id ''strLeague'' = JStr ''NBA''
   \<and> uid_for sample_world fixture_zero_id = Inr (''NBA'' @ ''-'' @ ''7'' @ ''@'' @ ''github.io'')"
proof -
  have l: "dict_get fixture_zero_id ''strLeague'' = JStr ''NBA''"
    by (simp add: dict_get_def fixture_zero_id_def)
  then have h: "\<not> truthy (dict_get fixture_zero_id ''strLeague'')
                 \<or> (\<exists>s. dict_get fixture_zero_id ''strLeague'' = JStr s)"
    by simp
  have i: "dict_get fixture_zero_id ''idEvent'' = JInt 0" "dict_get fixture_zero_id ''id'' = JStr ''7''"
    by (simp_all add: dict_get_def fixture_zero_id_def)
  have e: "environ sample_world ''ICS_DOMAIN'' = None" by (simp add: sample_world_def)
  show ?thesis
    using uid_for_formula [OF h, of sample_world] l
    by (simp add: i e str_replace_char_def)
qed


lemma civil_20260314: "civil_seconds 2026 3 14 0 0 0 = 63909043200"
  by (simp add: calendar_eval)

lemma strftime_20260314_0000: "strftime_utc 63909043200 = ''20260314T000000Z''"
  by (simp add: calendar_eval)

lemma strftime_20260314_0200: "strftime_utc 63909050400 = ''20260314T020000Z''"
  by (simp add: calendar_eval)

lemma to_utc_20260314:
  "to_utc_rfc \<lparr>wall = 63909043200, tzinfo = (\<lambda>reading. 0)\<rparr> = Inr ''20260314T000000Z''"
  "add_minutes \<lparr>wall = 63909043200, tzinfo = (\<lambda>reading. 0)\<rparr> 120 = Inr \<lparr>wall = 63909050400, tzinfo = (\<lambda>reading. 0)\<rparr>"
  "to_utc_rfc \<lparr>wall = 63909050400, tzinfo = (\<lambda>reading. 0)\<rparr> = Inr ''20260314T020000Z''"
  by (simp_all add: to_utc_rfc_def utcoffset_def add_minutes_def MAXSEC_def strftime_20260314_0000
      strftime_20260314_0200)

lemma sample_zone: "pytz_timezone sample_world (DEFAULT_TZ sample_world) = Some (\<lambda>wl. Inr 0)"
  by (simp add: sample_world_def DEFAULT_TZ_def)

lemma make_dt_date_only:
  assumes "event ''dateEvent'' = Some (JStr ''2026-03-14'')" and "event ''strTime'' = None"
  shows "make_dt sample_world event = Inr \<lparr>wall = 63909043200, tzinfo = (\<lambda>reading. 0)\<rparr>"
proof -
  have "py_parse sample_world (raw_text event) = Inr (Naive 63909043200)"
    using assms
    by (simp add: raw_text_def dict_get_def sample_world_def sample_parse_def civil_20260314)
  moreover have "truthy (dict_get event ''dateEvent'')" using assms by (simp add: dict_get_def)
  ultimately show ?thesis by (simp add: make_dt_def sample_zone)
qed

lemma uid_noid: "uid_for sample_world fixture_noid = Inr ''NBA-None@github.io''"
  by (simp add: uid_for_def dict_get_def fixture_noid_def py_or_def str_replace_char_def
      UID_DOMAIN_def sample_world_def)

lemma build_fixture_noid:
  "build_vevent sample_world n fixture_noid team_a
     = (Inr (vevent_noid (strftime_utc (utcnow sample_world n))), Suc n)"
proof -
  have m: "make_dt sample_world fixture_noid = Inr \<lparr>wall = 63909043200, tzinfo = (\<lambda>reading. 0)\<rparr>"
    by (rule make_dt_date_only) (simp_all add: fixture_noid_def)
  have s: "event_summary fixture_noid team_a = Inr ''Lakers vs Celtics''"
    by (simp add: event_summary_def event_title_def dict_get_def dict_get_default_def
        fixture_noid_def team_a_def strip_def is_space_def)
  have l: "event_location fixture_noid = []"
    by (simp add: event_location_def dict_get_def fixture_noid_def py_or_def)
  have d: "event_description fixture_noid = ''NBA''"
    by (simp add: event_description_def dict_get_def fixture_noid_def py_or_def)
  show ?thesis
    unfolding build_vevent_eval [OF m duration_team_a to_utc_20260314 uid_noid s]
    by (simp add: vevent_noid_def l d)
qed

text \<open>
  C5, as stated, fails: an event with neither identifier field gets the uid
  \<open>NBA-None@github.io\<close> and contributes a VEVENT.
\<close>

theorem missing_identifier_counterexample:
  "fixture_noid ''idEvent'' = None \<and> fixture_noid ''id'' = None
   \<and> uid_for sample_world fixture_noid = Inr ''NBA-None@github.io''
   \<and> vevents (process_event sample_world team_a init_state fixture_noid)
       = [vevent_noid ''20261104T120000Z'']"
proof -
  have "vevents (process_event sample_world team_a init_state fixture_noid)
       = [vevent_noid ''20261104T120000Z'']"
    by (simp add: process_event_def uid_noid init_state_def build_fixture_noid sample_now)
  moreover have "fixture_noid ''idEvent'' = None" "fixture_noid ''id'' = None"
    by (simp_all add: fixture_noid_def)
  ultimately show ?thesis by (simp add: uid_noid)
qed

lemma process_event_new:
  assumes "uid_for w ev = Inr u" and "u \<notin> seen_uids st"
    and "build_vevent w (clock_reads st) ev team = (Inr v, k)"
  shows "process_event w team st ev
           = st\<lparr>seen_uids := insert u (seen_uids st), vevents := vevents st @ [v], clock_reads := k\<rparr>"
  using assms by (simp add: process_event_def)

text \<open>
  C5, amended. For every raw event in which neither identifier field is present and
  whose league name is missing, null, empty or text, uid derivation does not fail: the
  uid is the league followed by \<open>-None\<close>, an at sign and the domain, and the event is handled like any other: when
  that uid has not been seen and the block is built, the block is appended.
\<close>

theorem uid_without_identifier_is_None:
  assumes "event ''idEvent'' = None" and "event ''id'' = None"
    and "\<not> truthy (dict_get event ''strLeague'') \<or> (\<exists>s. dict_get event ''strLeague'' = JStr s)"
  shows "\<exists>league. uid_for w event = Inr (league @ ''-None@'' @ UID_DOMAIN w)
           \<and> (league @ ''-None@'' @ UID_DOMAIN w \<notin> seen_uids st
                \<longrightarrow> build_vevent w (clock_reads st) event team = (Inr v, k)
                \<longrightarrow> vevents (process_event w team st event) = vevents st @ [v])"
proof -
  from assms(1,2) have e: "py_or (dict_get event ''idEvent'') (dict_get event ''id'') = JNull"
    by (simp add: py_or_def dict_get_def)
  from assms(3) have
    "\<exists>league. py_replace_space (py_or (dict_get event ''strLeague'') (JStr ''league'')) = Inr league"
    by (cases "dict_get event ''strLeague''") (auto simp: py_or_def)
  then obtain league where
    l: "py_replace_space (py_or (dict_get event ''strLeague'') (JStr ''league'')) = Inr league"
    by blast
  have u: "uid_for w event = Inr (league @ ''-None@'' @ UID_DOMAIN w)"
    by (simp add: uid_for_def l e)
  show ?thesis
    using u process_event_new [OF u, where st = st and v = v and k = k and team = team] by (intro exI [of _ league]) simp
qed

theorem uid_without_identifier_is_None_witness:
  "fixture_noid ''idEvent'' = None \<and> fixture_noid ''id'' = None
   \<and> dict_get fixture_noid ''strLeague'' = JStr ''NBA''
   \<and> (\<exists>league. uid_for sample_world fixture_noid = Inr (league @ ''-None@'' @ ''github.io''))"
proof -
  have a: "fixture_noid ''idEvent'' = None" "fixture_noid ''id'' = None"
    by (simp_all add: fixture_noid_def)
  have l: "dict_get fixture_noid ''strLeague'' = JStr ''NBA''"
    by (simp add: dict_get_def fixture_noid_def)
  then have h: "\<not> truthy (dict_get fixture_noid ''strLeague'')
                 \<or> (\<exists>s. dict_get fixture_noid ''strLeague'' = JStr s)"
    by simp
  have d: "UID_DOMAIN sample_world = ''github.io''"
    by (simp add: UID_DOMAIN_def sample_world_def)
  from uid_without_identifier_is_None [OF a h, of sample_world]
  have "\<exists>league. uid_for sample_world fixture_noid = Inr (league @ ''-None@'' @ ''github.io'')"
    unfolding d by blast
  with a l show ?thesis by simp
qed

section \<open>Claims about the formatter\<close>

lemma uid_notitle: "uid_for sample_world fixture_notitle = Inr ''NBA-2052715@github.io''"
  by (simp add: uid_for_def dict_get_def fixture_notitle_def py_or_def str_replace_char_def
      UID_DOMAIN_def sample_world_def)

lemma make_dt_notitle:
  "make_dt sample_world fixture_notitle = Inr \<lparr>wall = 63909043200, tzinfo = (\<lambda>reading. 0)\<rparr>"
  by (rule make_dt_date_only) (simp_all add: fixture_notitle_def)

lemma build_fixture_notitle:
  "build_vevent sample_world n fixture_notitle team_a = (Inl TypeError, Suc n)"
proof -
  have s: "event_summary fixture_notitle team_a = Inl TypeError"
    by (simp add: event_summary_def event_title_def dict_get_def fixture_notitle_def)
  show ?thesis
    by (simp add: build_vevent_def make_dt_notitle duration_team_a to_utc_20260314 uid_notitle s)
qed

text \<open>
  C7, as stated, fails: an event that passes \<open>make_dt\<close> and \<open>uid_for\<close> but has
  neither a title nor a home team makes \<open>build_vevent\<close> raise TypeError at line 61.
\<close>

theorem formatter_raises_counterexample:
  "make_dt sample_world fixture_notitle = Inr \<lparr>wall = 63909043200, tzinfo = (\<lambda>reading. 0)\<rparr>
   \<and> uid_for sample_world fixture_notitle = Inr ''NBA-2052715@github.io''
   \<and> build_vevent sample_world 0 fixture_notitle team_a = (Inl TypeError, 1)"
  by (simp add: make_dt_notitle uid_notitle build_fixture_notitle)

lemma event_title_ok:
  assumes "truthy (dict_get event ''strEvent'')
           \<or> (\<exists>h a. dict_get event ''strHomeTeam'' = JStr h \<and> dict_get event ''strAwayTeam'' = JStr a)"
  shows "event_title event =
           Inr (if truthy (dict_get event ''strEvent'') then py_str (dict_get event ''strEvent'')
                else py_str (dict_get event ''strHomeTeam'') @ '' vs ''
                       @ py_str (dict_get event ''strAwayTeam''))"
  using assms by (auto simp: event_title_def)

text \<open>
  C7, amended. For every (raw event, team) pair that passes \<open>make_dt\<close> and
  \<open>uid_for\<close>, building the block succeeds exactly when the team's duration converts
  to an integer, the start, the moved wall-clock reading and the end stay within the
  range of datetime, and the event has a title or text home and away names; in every
  other case \<open>build_vevent\<close> raises. When it succeeds, the SUMMARY is the team's
  \<open>sport_emoji\<close>, a space, and the title or the home name, \<open>vs\<close> and the away
  name, stripped; the LOCATION is the venue, else the venue location, else empty.
\<close>

theorem build_vevent_succeeds_when:
  assumes "make_dt w event = Inr dt" and "uid_for w event = Inr u"
  shows "if (\<exists>d. team_duration w team = Inr d
                \<and> in_range (wall dt - tzinfo dt (wall dt))
                \<and> in_range (wall dt + 60 * d)
                \<and> in_range (wall dt + 60 * d - tzinfo dt (wall dt + 60 * d)))
            \<and> (truthy (dict_get event ''strEvent'')
                 \<or> (\<exists>h a. dict_get event ''strHomeTeam'' = JStr h
                          \<and> dict_get event ''strAwayTeam'' = JStr a))
         then (\<exists>v. build_vevent w n event team = (Inr v, Suc n) \<and> uid v = u
                 \<and> summary v
                     = strip (py_str (dict_get_default team ''sport_emoji'' (JStr [])) @ '' ''
                         @ (if truthy (dict_get event ''strEvent'')
                            then py_str (dict_get event ''strEvent'')
                            else py_str (dict_get event ''strHomeTeam'') @ '' vs ''
                                   @ py_str (dict_get event ''strAwayTeam'')))
                 \<and> location v = py_str (py_or (py_or (dict_get event ''strVenue'')
                                        (dict_get event ''strVenueLocation'')) (JStr [])))
         else (\<exists>e k. build_vevent w n event team = (Inl e, k))"
    (is "if ?C then ?A else ?B")
proof -
  define title_ok where "title_ok \<longleftrightarrow>
    truthy (dict_get event ''strEvent'')
      \<or> (\<exists>h a. dict_get event ''strHomeTeam'' = JStr h \<and> dict_get event ''strAwayTeam'' = JStr a)"
  define times_ok where "times_ok d \<longleftrightarrow>
    team_duration w team = Inr d
      \<and> in_range (wall dt - tzinfo dt (wall dt))
      \<and> in_range (wall dt + 60 * d)
      \<and> in_range (wall dt + 60 * d - tzinfo dt (wall dt + 60 * d))" for d
  have good: "\<exists>v. build_vevent w n event team = (Inr v, Suc n) \<and> uid v = u
                 \<and> summary v
                     = strip (py_str (dict_get_default team ''sport_emoji'' (JStr [])) @ '' ''
                         @ (if truthy (dict_get event ''strEvent'')
                            then py_str (dict_get event ''strEvent'')
                            else py_str (dict_get event ''strHomeTeam'') @ '' vs ''
                                   @ py_str (dict_get event ''strAwayTeam'')))
                 \<and> location v = py_str (py_or (py_or (dict_get event ''strVenue'')
                                        (dict_get event ''strVenueLocation'')) (JStr []))"
    if d: "times_ok d" and t: title_ok for d
  proof -
    from d have du: "team_duration w team = Inr d"
      and r1: "in_range (wall dt - tzinfo dt (wall dt))"
      and r2: "in_range (wall dt + 60 * d)"
      and r3: "in_range (wall dt + 60 * d - tzinfo dt (wall dt + 60 * d))"
      unfolding times_ok_def by simp_all
    have s: "to_utc_rfc dt = Inr (strftime_utc (wall dt - tzinfo dt (wall dt)))"
      using r1 by (simp add: to_utc_rfc_def utcoffset_def in_range_def)
    have a: "add_minutes dt d = Inr (dt\<lparr>wall := wall dt + 60 * d\<rparr>)"
      using r2 by (simp add: add_minutes_def in_range_def)
    have e: "to_utc_rfc (dt\<lparr>wall := wall dt + 60 * d\<rparr>)
               = Inr (strftime_utc (wall dt + 60 * d - tzinfo dt (wall dt + 60 * d)))"
      using r3 by (simp add: to_utc_rfc_def utcoffset_def in_range_def)
    have sm: "event_summary event team =
                Inr (strip (py_str (dict_get_default team ''sport_emoji'' (JStr [])) @ '' ''
                  @ (if truthy (dict_get event ''strEvent'')
                     then py_str (dict_get event ''strEvent'')
                     else py_str (dict_get event ''strHomeTeam'') @ '' vs ''
                            @ py_str (dict_get event ''strAwayTeam''))))"
      using t unfolding title_ok_def by (simp add: event_summary_def event_title_ok)
    show ?thesis
      unfolding build_vevent_eval [OF assms(1) du s a e assms(2) sm]
      by (simp add: event_location_def)
  qed
  have bad: "\<exists>e k. build_vevent w n event team = (Inl e, k)"
    if no: "\<not> ((\<exists>d. times_ok d) \<and> title_ok)"
  proof -
    obtain r k where b: "build_vevent w n event team = (r, k)"
      by (cases "build_vevent w n event team")
    show ?thesis
    proof (cases r)
      case (Inl e)
      with b show ?thesis by blast
    next
      case (Inr v)
      from build_vevent_Inr [OF b [unfolded Inr]] assms(1) obtain d dt' where
        du: "team_duration w team = Inr d" and st: "to_utc_rfc dt = Inr (dtstart v)"
        and ad: "add_minutes dt d = Inr dt'" and en: "to_utc_rfc dt' = Inr (dtend v)"
        and sm: "event_summary event team = Inr (summary v)"
        by auto
      have "in_range (wall dt' - tzinfo dt' (wall dt'))" by (rule to_utc_rfc_Inr(2) [OF en])
      then have r3: "in_range (wall dt + 60 * d - tzinfo dt (wall dt + 60 * d))"
        unfolding add_minutes_Inr(1,2) [OF ad] .
      have "times_ok d"
        unfolding times_ok_def
        using du to_utc_rfc_Inr(2) [OF st] add_minutes_Inr(3) [OF ad] r3 by (intro conjI)
      moreover from sm obtain t where "event_title event = Inr t"
        by (auto simp: event_summary_def split: sum.splits)
      then have title_ok unfolding title_ok_def by (rule event_title_Inr)
      ultimately show ?thesis using no by blast
    qed
  qed
  show ?thesis
  proof (cases "(\<exists>d. times_ok d) \<and> title_ok")
    case True
    then obtain d where d: "times_ok d" and t: title_ok by blast
    from True have c: ?C unfolding times_ok_def title_ok_def .
    show ?thesis unfolding if_P [OF c] by (rule good [OF d t])
  next
    case False
    then have c: "\<not> ?C" unfolding times_ok_def title_ok_def .
    show ?thesis unfolding if_not_P [OF c] by (rule bad [OF False])
  qed
qed

theorem build_vevent_succeeds_when_witness:
  "make_dt sample_world fixture_b = Inr \<lparr>wall = 63908940600, tzinfo = (\<lambda>reading. 7200)\<rparr>
   \<and> uid_for sample_world fixture_b = Inr ''English_Premier_League-2052712@github.io''
   \<and> team_duration sample_world team_b = Inr 90
   \<and> in_range (63908940600 - 7200) \<and> in_range (63908940600 + 60 * 90)
   \<and> in_range (63908940600 + 60 * 90 - 7200)
   \<and> dict_get fixture_b ''strHomeTeam'' = JStr ''Arsenal''
   \<and> dict_get fixture_b ''strAwayTeam'' = JStr ''Chelsea''
   \<and> (\<exists>v. build_vevent sample_world 0 fixture_b team_b = (Inr v, Suc 0)
          \<and> uid v = ''English_Premier_League-2052712@github.io''
          \<and> summary v = ''(F) Arsenal vs Chelsea'')"
proof -
  define dt where "dt = \<lparr>wall = 63908940600, tzinfo = (\<lambda>reading. 7200)\<rparr>"
  have m: "make_dt sample_world fixture_b = Inr dt" by (simp add: make_dt_fixture_b dt_def)
  have r: "in_range (63908940600 - 7200)" "in_range (63908940600 + 60 * 90)"
    "in_range (63908940600 + 60 * 90 - 7200)"
    by (simp_all add: in_range_def MAXSEC_def)
  have f: "dict_get fixture_b ''strHomeTeam'' = JStr ''Arsenal''"
    "dict_get fixture_b ''strAwayTeam'' = JStr ''Chelsea''"
    "\<not> truthy (dict_get fixture_b ''strEvent'')"
    by (simp_all add: dict_get_def fixture_b_def)
  have em: "dict_get_default team_b ''sport_emoji'' (JStr []) = JStr ''(F)''"
    by (simp add: dict_get_default_def team_b_def)
  have c: "(\<exists>d. team_duration sample_world team_b = Inr d
                \<and> in_range (wall dt - tzinfo dt (wall dt))
                \<and> in_range (wall dt + 60 * d)
                \<and> in_range (wall dt + 60 * d - tzinfo dt (wall dt + 60 * d)))
            \<and> (truthy (dict_get fixture_b ''strEvent'')
                 \<or> (\<exists>h a. dict_get fixture_b ''strHomeTeam'' = JStr h
                          \<and> dict_get fixture_b ''strAwayTeam'' = JStr a))"
    using r f duration_team_b [of sample_world] by (auto simp: dt_def)
  from build_vevent_succeeds_when [OF m uid_fixture_b, of team_b 0]
  have "\<exists>v. build_vevent sample_world 0 fixture_b team_b = (Inr v, Suc 0)
          \<and> uid v = ''English_Premier_League-2052712@github.io''
          \<and> summary v = ''(F) Arsenal vs Chelsea''"
    unfolding if_P [OF c] by (auto simp: f em strip_def is_space_def)
  then show ?thesis
    using r f by (simp add: make_dt_fixture_b uid_fixture_b duration_team_b)
qed

section \<open>The nested loops as one loop; the dedup invariant\<close>

lemma process_events_pairs:
  "process_events w team st evs = process_pairs w st (map (Pair team) evs)"
  by (induction evs arbitrary: st) simp_all

lemma process_pairs_append:
  "process_pairs w st (xs @ ys) = process_pairs w (process_pairs w st xs) ys"
  by (induction xs arbitrary: st) auto

lemma run_teams_flat:
  "run_teams w st teams = Inr st' \<Longrightarrow> st' = process_pairs w st (fetch_order w teams)"
proof (induction teams arbitrary: st)
  case Nil
  then show ?case by (simp add: fetch_order_def)
next
  case (Cons team teams)
  from Cons.prems obtain tid where tid: "team ''team_id'' = Some tid"
    by (cases "team ''team_id''") auto
  show ?case
  proof (cases "requests_get w tid")
    case (Inl e)
    with Cons tid show ?thesis by (simp add: fetch_order_def)
  next
    case (Inr events)
    show ?thesis
    proof (cases "events = []")
      case True
      with Cons tid Inr show ?thesis by (simp add: fetch_order_def)
    next
      case False
      with Cons.prems tid Inr
      have "run_teams w (process_events w team st events) teams = Inr st'" by simp
      from Cons.IH [OF this] tid Inr show ?thesis
        by (simp add: fetch_order_def process_pairs_append process_events_pairs)
    qed
  qed
qed

lemma run_teams_total:
  "(\<forall>t\<in>set teams. t ''team_id'' \<noteq> None) \<Longrightarrow> \<exists>st'. run_teams w st teams = Inr st'"
proof (induction teams arbitrary: st)
  case Nil
  then show ?case by simp
next
  case (Cons team teams)
  then obtain tid where tid: "team ''team_id'' = Some tid" by auto
  from Cons have ih: "\<And>s. \<exists>st'. run_teams w s teams = Inr st'" by simp
  show ?case using tid ih by (auto split: sum.splits)
qed

lemma build_vevent_uid:
  "build_vevent w n ev team = (Inr v, k) \<Longrightarrow> uid_for w ev = Inr (uid v)"
  using build_vevent_Inr by blast

lemma process_event_cases:
  obtains (skip) "process_event w team st ev = st"
    and "\<forall>u. uid_for w ev = Inr u \<longrightarrow> u \<in> seen_uids st"
  | (fail) u e k where "uid_for w ev = Inr u" and "u \<notin> seen_uids st"
      and "build_vevent w (clock_reads st) ev team = (Inl e, k)"
      and "process_event w team st ev = st\<lparr>seen_uids := insert u (seen_uids st), clock_reads := k\<rparr>"
  | (emit) u v where "uid_for w ev = Inr u" and "u \<notin> seen_uids st" and "uid v = u"
      and "build_vevent w (clock_reads st) ev team = (Inr v, Suc (clock_reads st))"
      and "process_event w team st ev
             = st\<lparr>seen_uids := insert u (seen_uids st), vevents := vevents st @ [v],
                   clock_reads := Suc (clock_reads st)\<rparr>"
proof (cases "uid_for w ev")
  case (Inl e)
  then show ?thesis using skip by (simp add: process_event_def)
next
  case (Inr u)
  show ?thesis
  proof (cases "u \<in> seen_uids st")
    case True
    with Inr show ?thesis using skip by (simp add: process_event_def)
  next
    case False
    obtain r k where b: "build_vevent w (clock_reads st) ev team = (r, k)"
      by (cases "build_vevent w (clock_reads st) ev team")
    show ?thesis
    proof (cases r)
      case (Inl e)
      with Inr False b show ?thesis using fail [of u e k] by (simp add: process_event_def)
    next
      case r: (Inr v)
      from build_vevent_Inr [OF b [unfolded r]] Inr
      have "uid v = u" "k = Suc (clock_reads st)" by auto
      with Inr False b r show ?thesis using emit [of u v] by (simp add: process_event_def)
    qed
  qed
qed

lemma renders_iff: "renders w ev team \<longleftrightarrow> (\<exists>v. build_vevent w n ev team = (Inr v, Suc n))"
  unfolding renders_def build_vevent_def
  by (auto split: sum.splits simp: Let_def)

lemma seen_process_event:
  "seen_uids (process_event w team st ev)
     = seen_uids st \<union> (case uid_for w ev of Inl e \<Rightarrow> {} | Inr u \<Rightarrow> {u})"
  by (cases rule: process_event_cases [of w team st ev]) (auto split: sum.splits)

lemma seen_process_pairs:
  "seen_uids (process_pairs w st xs) = seen_uids st \<union> set (derived_uids w xs)"
proof (induction xs arbitrary: st)
  case Nil
  then show ?case by (simp add: derived_uids_def)
next
  case (Cons x xs)
  obtain team ev where x: "x = (team, ev)" by (cases x)
  show ?case
    unfolding x by (auto simp: Cons.IH seen_process_event derived_uids_def split: sum.splits)
qed

lemma blocks_process_event_seen:
  assumes "u \<in> seen_uids st"
  shows "blocks_with_uid u (process_event w team st ev) = blocks_with_uid u st"
  using assms
  by (cases rule: process_event_cases [of w team st ev]) (auto simp: blocks_with_uid_def)

lemma blocks_process_pairs_seen:
  "u \<in> seen_uids st \<Longrightarrow> blocks_with_uid u (process_pairs w st xs) = blocks_with_uid u st"
proof (induction xs arbitrary: st)
  case Nil
  then show ?case by simp
next
  case (Cons x xs)
  obtain team ev where x: "x = (team, ev)" by (cases x)
  from Cons.prems have "u \<in> seen_uids (process_event w team st ev)"
    by (simp add: seen_process_event)
  from Cons.IH [OF this] Cons.prems show ?case
    unfolding x by (simp add: blocks_process_event_seen)
qed

lemma state_ok_init: "state_ok init_state"
  by (simp add: state_ok_def init_state_def)

lemma state_ok_process_event: "state_ok st \<Longrightarrow> state_ok (process_event w team st ev)"
  by (cases rule: process_event_cases [of w team st ev]) (auto simp: state_ok_def)

lemma state_ok_process_pairs: "state_ok st \<Longrightarrow> state_ok (process_pairs w st xs)"
proof (induction xs arbitrary: st)
  case Nil
  then show ?case by simp
next
  case (Cons x xs)
  obtain team ev where x: "x = (team, ev)" by (cases x)
  from Cons show ?case unfolding x by (simp add: state_ok_process_event)
qed

lemma blocks_unseen: "state_ok st \<Longrightarrow> u \<notin> seen_uids st \<Longrightarrow> blocks_with_uid u st = []"
  by (auto simp: state_ok_def blocks_with_uid_def filter_empty_conv)

lemma first_occurrence:
  assumes ok: "state_ok st" and u: "uid_for w ev = Inr u" and new: "u \<notin> seen_uids st"
    and pre: "u \<notin> set (derived_uids w pre)"
  shows "u \<in> seen_uids (process_pairs w st (pre @ (team, ev) # post))"
    and "blocks_with_uid u (process_pairs w st (pre @ (team, ev) # post))
           = (case fst (build_vevent w (clock_reads (process_pairs w st pre)) ev team) of
                Inl e \<Rightarrow> [] | Inr v \<Rightarrow> [v])"
proof -
  define st1 where "st1 = process_pairs w st pre"
  define st2 where "st2 = process_event w team st1 ev"
  have fin: "process_pairs w st (pre @ (team, ev) # post) = process_pairs w st2 post"
    by (simp add: process_pairs_append st1_def st2_def)
  have ok1: "state_ok st1" unfolding st1_def by (rule state_ok_process_pairs [OF ok])
  have new1: "u \<notin> seen_uids st1" using new pre by (simp add: st1_def seen_process_pairs)
  have e1: "blocks_with_uid u st1 = []" by (rule blocks_unseen [OF ok1 new1])
  have s2: "u \<in> seen_uids st2" using u by (simp add: st2_def seen_process_event)
  have b2: "blocks_with_uid u st2
              = (case fst (build_vevent w (clock_reads st1) ev team) of Inl e \<Rightarrow> [] | Inr v \<Rightarrow> [v])"
    using u new1 e1 unfolding st2_def
    by (cases rule: process_event_cases [of w team st1 ev]) (auto simp: blocks_with_uid_def)
  show "u \<in> seen_uids (process_pairs w st (pre @ (team, ev) # post))"
    unfolding fin using s2 by (simp add: seen_process_pairs)
  show "blocks_with_uid u (process_pairs w st (pre @ (team, ev) # post))
           = (case fst (build_vevent w (clock_reads (process_pairs w st pre)) ev team) of
                Inl e \<Rightarrow> [] | Inr v \<Rightarrow> [v])"
    unfolding fin blocks_process_pairs_seen [OF s2] b2 st1_def by (rule refl)
qed

lemma origin_process_event:
  "uid ` set (vevents (process_event w team st ev))
     \<subseteq> uid ` set (vevents st) \<union> (case uid_for w ev of Inl e \<Rightarrow> {} | Inr u \<Rightarrow> {u})"
  by (cases rule: process_event_cases [of w team st ev]) (auto split: sum.splits)

lemma origin_process_pairs:
  "uid ` set (vevents (process_pairs w st xs)) \<subseteq> uid ` set (vevents st) \<union> set (derived_uids w xs)"
proof (induction xs arbitrary: st)
  case Nil
  then show ?case by simp
next
  case (Cons x xs)
  obtain team ev where x: "x = (team, ev)" by (cases x)
  have "uid ` set (vevents (process_pairs w (process_event w team st ev) xs))
          \<subseteq> uid ` set (vevents (process_event w team st ev)) \<union> set (derived_uids w xs)"
    by (rule Cons.IH)
  with origin_process_event [of w team st ev] show ?case
    unfolding x by (auto simp: derived_uids_def split: sum.splits)
qed

section \<open>Claims about the run\<close>

lemma run_state_ok:
  assumes "run_teams w init_state teams = Inr st"
  shows "state_ok st"
  unfolding run_teams_flat [OF assms] by (rule state_ok_process_pairs [OF state_ok_init])

text \<open>
  C4, amended. In every run no two VEVENT blocks share a uid, and every block's uid is
  derived by some fetched event. When several events derive the same uid and the first
  of them in fetch order (teams in configured order, then each team's events in the
  order returned) can be rendered, the blocks with that uid are exactly one: the block
  built from that first occurrence; every later occurrence is dropped.
\<close>

theorem dedup_keeps_first_occurrence:
  assumes "run_teams w init_state teams = Inr st"
  shows "distinct (map uid (vevents st))
       \<and> uid ` set (vevents st) \<subseteq> set (derived_uids w (fetch_order w teams))
       \<and> (\<forall>pre team ev post u.
             fetch_order w teams = pre @ (team, ev) # post \<longrightarrow> uid_for w ev = Inr u
               \<longrightarrow> u \<notin> set (derived_uids w pre) \<longrightarrow> renders w ev team
               \<longrightarrow> (\<exists>n v. build_vevent w n ev team = (Inr v, Suc n)
                          \<and> blocks_with_uid u st = [v]))"
proof (intro conjI allI impI)
  show "distinct (map uid (vevents st))"
    using run_state_ok [OF assms] by (simp add: state_ok_def)
  show "uid ` set (vevents st) \<subseteq> set (derived_uids w (fetch_order w teams))"
    using origin_process_pairs [of w init_state "fetch_order w teams"]
    unfolding run_teams_flat [OF assms] by (simp add: init_state_def)
next
  fix pre team ev post u
  assume f: "fetch_order w teams = pre @ (team, ev) # post" and u: "uid_for w ev = Inr u"
    and p: "u \<notin> set (derived_uids w pre)" and r: "renders w ev team"
  define n where "n = clock_reads (process_pairs w init_state pre)"
  have new: "u \<notin> seen_uids init_state" by (simp add: init_state_def)
  from r obtain v where v: "build_vevent w n ev team = (Inr v, Suc n)"
    unfolding renders_iff [of w ev team n] by blast
  have "blocks_with_uid u st = [v]"
    unfolding run_teams_flat [OF assms] f
      first_occurrence(2) [OF state_ok_init u new p, of team post]
    using v by (simp add: n_def)
  with v show "\<exists>n v. build_vevent w n ev team = (Inr v, Suc n) \<and> blocks_with_uid u st = [v]"
    by blast
qed

text \<open>
  C10. When the first event in fetch order that derives a uid cannot be rendered, the
  uid is marked seen all the same: at the end of the run it is in the set and no VEVENT
  block carries it, whatever later events derive it.
\<close>

theorem failed_first_occurrence_blocks_uid:
  assumes "run_teams w init_state teams = Inr st"
    and "fetch_order w teams = pre @ (team, ev) # post"
    and "uid_for w ev = Inr u" and "u \<notin> set (derived_uids w pre)"
    and "\<not> renders w ev team"
  shows "u \<in> seen_uids st \<and> blocks_with_uid u st = [] \<and> u \<notin> uid ` set (vevents st)"
proof -
  define n where "n = clock_reads (process_pairs w init_state pre)"
  have new: "u \<notin> seen_uids init_state" by (simp add: init_state_def)
  from assms(5) have "\<not> (\<exists>v. build_vevent w n ev team = (Inr v, Suc n))"
    unfolding renders_iff [of w ev team n] .
  then have nb: "\<And>v. fst (build_vevent w n ev team) \<noteq> Inr v"
    using build_vevent_Inr [of w n ev team]
    by (cases "build_vevent w n ev team") auto
  have s: "u \<in> seen_uids st"
    unfolding run_teams_flat [OF assms(1)] assms(2)
    by (rule first_occurrence(1) [OF state_ok_init assms(3) new assms(4)])
  have b: "blocks_with_uid u st = []"
    unfolding run_teams_flat [OF assms(1)] assms(2)
      first_occurrence(2) [OF state_ok_init assms(3) new assms(4), of team post]
    using nb by (simp add: n_def split: sum.splits)
  from b have "u \<notin> uid ` set (vevents st)"
    by (auto simp: blocks_with_uid_def filter_empty_conv)
  with s b show ?thesis by simp
qed

lemma build_vevent_clock:
  "snd (build_vevent w n ev team) = n \<or> snd (build_vevent w n ev team) = Suc n"
  unfolding build_vevent_def by (auto split: sum.splits simp: Let_def)

lemma stamps_ok_weaken:
  assumes "stamps_ok w st" and "vevents st' = vevents st" and "clock_reads st \<le> clock_reads st'"
  shows "stamps_ok w st'"
proof -
  from assms(1) obtain ks where
    ks: "map dtstamp (vevents st) = map (\<lambda>k. strftime_utc (utcnow w k)) ks"
      "sorted_wrt (<) ks" "list_all (\<lambda>k. k < clock_reads st) ks"
    unfolding stamps_ok_def by blast
  from ks(3) assms(3) have "list_all (\<lambda>k. k < clock_reads st') ks"
    by (auto simp: list_all_iff)
  with ks(1,2) assms(2) show ?thesis unfolding stamps_ok_def by auto
qed

lemma stamps_ok_process_event:
  assumes "stamps_ok w st"
  shows "stamps_ok w (process_event w team st ev)"
proof (cases rule: process_event_cases [of w team st ev])
  case skip
  with assms show ?thesis by simp
next
  case (fail u e k)
  from build_vevent_clock [of w "clock_reads st" ev team] fail(3)
  have "clock_reads st \<le> k" by auto
  with fail(4) show ?thesis by (intro stamps_ok_weaken [OF assms]) simp_all
next
  case (emit u v)
  from assms obtain ks where
    ks: "map dtstamp (vevents st) = map (\<lambda>k. strftime_utc (utcnow w k)) ks"
      "sorted_wrt (<) ks" "list_all (\<lambda>k. k < clock_reads st) ks"
    unfolding stamps_ok_def by blast
  from build_vevent_Inr [OF emit(4)]
  have d: "dtstamp v = strftime_utc (utcnow w (clock_reads st))" by blast
  have "map dtstamp (vevents st @ [v])
          = map (\<lambda>k. strftime_utc (utcnow w k)) (ks @ [clock_reads st])"
    using ks(1) d by simp
  moreover have "sorted_wrt (<) (ks @ [clock_reads st])"
    using ks(2,3) by (auto simp: sorted_wrt_append list_all_iff)
  moreover have "list_all (\<lambda>k. k < Suc (clock_reads st)) (ks @ [clock_reads st])"
    using ks(3) by (auto simp: list_all_iff)
  ultimately show ?thesis unfolding emit(5) stamps_ok_def
    by (intro exI [of _ "ks @ [clock_reads st]"]) simp
qed

lemma stamps_ok_process_pairs: "stamps_ok w st \<Longrightarrow> stamps_ok w (process_pairs w st xs)"
proof (induction xs arbitrary: st)
  case Nil
  then show ?case by simp
next
  case (Cons x xs)
  obtain team ev where x: "x = (team, ev)" by (cases x)
  from Cons show ?case unfolding x by (simp add: stamps_ok_process_event)
qed

text \<open>
  C6, amended. The instant of DTSTAMP is captured once per VEVENT block, when the block
  is built (line 58): the DTSTAMPs of the blocks of a run, in order, render strictly
  increasing readings of the clock, all taken during the run. They agree only when
  those readings agree to the second.
\<close>

theorem dtstamp_is_read_per_block:
  assumes "run_teams w init_state teams = Inr st"
  shows "\<exists>ks. map dtstamp (vevents st) = map (\<lambda>k. strftime_utc (utcnow w k)) ks
            \<and> sorted_wrt (<) ks \<and> list_all (\<lambda>k. k < clock_reads st) ks"
proof -
  have "stamps_ok w init_state"
    unfolding stamps_ok_def init_state_def by (intro exI [of _ "[]"]) simp
  then have "stamps_ok w st"
    unfolding run_teams_flat [OF assms] by (rule stamps_ok_process_pairs)
  then show ?thesis unfolding stamps_ok_def .
qed

lemma make_dt_missing:
  "\<not> truthy (dict_get ev ''dateEvent'') \<Longrightarrow> make_dt w ev = Inl (ValueError ''Event missing dateEvent'')"
  by (simp add: make_dt_def)

lemma build_vevent_missing:
  "\<not> truthy (dict_get ev ''dateEvent'')
     \<Longrightarrow> build_vevent w n ev team = (Inl (ValueError ''Event missing dateEvent''), n)"
  by (simp add: build_vevent_def make_dt_missing)

lemma process_event_missing:
  assumes "\<not> truthy (dict_get ev ''dateEvent'')"
  shows "process_event w team st ev
           = (case uid_for w ev of Inl e \<Rightarrow> st
              | Inr u \<Rightarrow> st\<lparr>seen_uids := insert u (seen_uids st)\<rparr>)"
  by (auto simp: process_event_def build_vevent_missing [OF assms] insert_absorb
      split: sum.splits)

lemma process_event_extra_seen:
  assumes "uid_for w ev \<noteq> Inr u"
  shows "process_event w team (st\<lparr>seen_uids := insert u (seen_uids st)\<rparr>) ev
           = (process_event w team st ev)
               \<lparr>seen_uids := insert u (seen_uids (process_event w team st ev))\<rparr>"
  using assms
  by (cases "build_vevent w (clock_reads st) ev team")
     (auto simp: process_event_def Let_def insert_commute split: sum.splits)

lemma process_events_extra_seen:
  assumes "\<forall>e\<in>set evs. uid_for w e \<noteq> Inr u"
  shows "process_events w team (st\<lparr>seen_uids := insert u (seen_uids st)\<rparr>) evs
           = (process_events w team st evs)
               \<lparr>seen_uids := insert u (seen_uids (process_events w team st evs))\<rparr>"
  using assms
proof (induction evs arbitrary: st)
  case Nil
  then show ?case by simp
next
  case (Cons e evs)
  then have e: "uid_for w e \<noteq> Inr u" and r: "\<forall>e\<in>set evs. uid_for w e \<noteq> Inr u" by simp_all
  show ?case
    by (simp add: process_event_extra_seen [OF e] Cons.IH [OF r])
qed

lemma process_events_append:
  "process_events w team st (xs @ ys) = process_events w team (process_events w team st xs) ys"
  by (induction xs arbitrary: st) simp_all

text \<open>
  C8, amended. An event whose \<open>dateEvent\<close> is absent (missing, null or empty) makes
  \<open>make_dt\<close> raise the ValueError \<open>Event missing dateEvent\<close>, before the clock is
  read. Only that event is skipped, provided no later sibling derives the same uid:
  then the team's blocks are those of the list without the event.
\<close>

theorem missing_date_skips_only_that_event:
  assumes "\<not> truthy (dict_get bad ''dateEvent'')"
    and "\<forall>u. uid_for w bad = Inr u \<longrightarrow> (\<forall>e\<in>set post. uid_for w e \<noteq> Inr u)"
  shows "make_dt w bad = Inl (ValueError ''Event missing dateEvent'')
       \<and> build_vevent w n bad team = (Inl (ValueError ''Event missing dateEvent''), n)
       \<and> vevents (process_events w team st (pre @ bad # post))
           = vevents (process_events w team st (pre @ post))
       \<and> clock_reads (process_events w team st (pre @ bad # post))
           = clock_reads (process_events w team st (pre @ post))"
proof -
  define st1 where "st1 = process_events w team st pre"
  have l: "process_events w team st (pre @ bad # post)
             = process_events w team (process_event w team st1 bad) post"
    by (simp add: process_events_append st1_def)
  have r: "process_events w team st (pre @ post) = process_events w team st1 post"
    by (simp add: process_events_append st1_def)
  have "vevents (process_events w team (process_event w team st1 bad) post)
          = vevents (process_events w team st1 post)
      \<and> clock_reads (process_events w team (process_event w team st1 bad) post)
          = clock_reads (process_events w team st1 post)"
  proof (cases "uid_for w bad")
    case (Inl e)
    then show ?thesis by (simp add: process_event_missing [OF assms(1)])
  next
    case (Inr u)
    with assms(2) have "\<forall>e\<in>set post. uid_for w e \<noteq> Inr u" by simp
    from process_events_extra_seen [OF this] Inr show ?thesis
      by (simp add: process_event_missing [OF assms(1)])
  qed
  then show ?thesis
    unfolding l r by (simp add: make_dt_missing [OF assms(1)] build_vevent_missing [OF assms(1)])
qed

lemma run_teams_failed_fetch:
  assumes "team ''team_id'' = Some tid" and "requests_get w tid = Inl err"
  shows "run_teams w st (pre @ team # post) = run_teams w st (pre @ post)"
proof (induction pre arbitrary: st)
  case Nil
  show ?case using assms by simp
next
  case (Cons t pre)
  show ?case by (simp add: Cons.IH split: option.splits sum.splits)
qed

text \<open>
  C9. A team whose fetch raises is passed over: the run over the teams is the run over
  the teams without it, from any state, so it contributes no block and changes nothing
  for the others; and when every other team has a \<open>team_id\<close> the run ends with a
  calendar document.
\<close>

theorem failed_fetch_contributes_nothing:
  assumes "team ''team_id'' = Some tid" and "requests_get w tid = Inl err"
  shows "run_teams w st (pre @ team # post) = run_teams w st (pre @ post)
       \<and> main w (pre @ team # post) = main w (pre @ post)
       \<and> ((\<forall>t\<in>set (pre @ post). t ''team_id'' \<noteq> None)
            \<longrightarrow> (\<exists>st'. run_teams w init_state (pre @ team # post) = Inr st'
                     \<and> main w (pre @ team # post)
                         = Inr (generate_calendar (map vevent_text (vevents st')))))"
proof -
  have a: "\<And>s. run_teams w s (pre @ team # post) = run_teams w s (pre @ post)"
    by (rule run_teams_failed_fetch [where team = team and tid = tid, OF assms])
  have b: "main w (pre @ team # post) = main w (pre @ post)"
    by (simp add: main_def a)
  have c: "\<exists>st'. run_teams w init_state (pre @ team # post) = Inr st'
             \<and> main w (pre @ team # post) = Inr (generate_calendar (map vevent_text (vevents st')))"
    if "\<forall>t\<in>set (pre @ post). t ''team_id'' \<noteq> None"
  proof -
    from run_teams_total [OF that, of w init_state]
    obtain st' where "run_teams w init_state (pre @ post) = Inr st'" by blast
    then show ?thesis by (intro exI [of _ st']) (simp add: main_def a)
  qed
  from a b c show ?thesis by blast
qed

section \<open>The sample runs, evaluated\<close>

lemma UID_DOMAIN_feed: "UID_DOMAIN (w\<lparr>requests_get := f\<rparr>) = UID_DOMAIN w"
  by (simp add: UID_DOMAIN_def)

lemma uid_for_feed: "uid_for (w\<lparr>requests_get := f\<rparr>) ev = uid_for w ev"
  unfolding uid_for_def UID_DOMAIN_feed by (rule refl)

lemma py_parse_feed: "py_parse (w\<lparr>requests_get := f\<rparr>) raw = py_parse w raw"
  by (cases raw) simp_all

lemma py_int_feed: "py_int (w\<lparr>requests_get := f\<rparr>) x = py_int w x"
  by (cases x) simp_all

lemma make_dt_feed: "make_dt (w\<lparr>requests_get := f\<rparr>) ev = make_dt w ev"
  unfolding make_dt_def py_parse_feed DEFAULT_TZ_def
  by (simp cong: sum.case_cong parsed.case_cong)

lemma team_duration_feed: "team_duration (w\<lparr>requests_get := f\<rparr>) team = team_duration w team"
  by (simp add: team_duration_def py_int_feed)

lemma build_vevent_feed:
  "build_vevent (w\<lparr>requests_get := f\<rparr>) n ev team = build_vevent w n ev team"
  unfolding build_vevent_def make_dt_feed team_duration_feed uid_for_feed
  by (simp cong: sum.case_cong)

lemma process_event_feed:
  "process_event (w\<lparr>requests_get := f\<rparr>) team st ev = process_event w team st ev"
  unfolding process_event_def uid_for_feed build_vevent_feed by (rule refl)

lemma process_events_feed:
  "process_events (w\<lparr>requests_get := f\<rparr>) team st evs = process_events w team st evs"
  by (induction evs arbitrary: st) (simp_all add: process_event_feed)

lemma renders_feed: "renders (w\<lparr>requests_get := f\<rparr>) ev team = renders w ev team"
  by (simp add: renders_def build_vevent_feed)

lemma process_event_seen:
  assumes "uid_for w ev = Inr u" and "u \<in> seen_uids st"
  shows "process_event w team st ev = st"
  using assms by (simp add: process_event_def)

lemma process_event_fail:
  assumes "uid_for w ev = Inr u" and "u \<notin> seen_uids st"
    and "build_vevent w (clock_reads st) ev team = (Inl e, k)"
  shows "process_event w team st ev = st\<lparr>seen_uids := insert u (seen_uids st), clock_reads := k\<rparr>"
  using assms by (simp add: process_event_def)

lemma sample_now_1: "strftime_utc (utcnow sample_world (Suc 0)) = ''20261104T120001Z''"
  by (simp add: sample_world_def calendar_eval)

lemma sample_now_2: "strftime_utc (utcnow sample_world 2) = ''20261104T120002Z''"
  by (simp add: sample_world_def calendar_eval)

lemma uid_fixture_c: "uid_for sample_world fixture_c = Inr ''NBA-2052714@github.io''"
  by (simp add: uid_for_def dict_get_def fixture_c_def py_or_def str_replace_char_def
      UID_DOMAIN_def sample_world_def)

lemma uid_fixture_c_bad: "uid_for sample_world fixture_c_bad = Inr ''NBA-2052714@github.io''"
  by (simp add: uid_for_def dict_get_def fixture_c_bad_def py_or_def str_replace_char_def
      UID_DOMAIN_def sample_world_def)

lemma uid_fixture_nodate: "uid_for sample_world fixture_nodate = Inr ''NBA-2052713@github.io''"
  by (simp add: uid_for_def dict_get_def fixture_nodate_def py_or_def str_replace_char_def
      UID_DOMAIN_def sample_world_def)

lemma build_fixture_c:
  "build_vevent sample_world n fixture_c team_a
     = (Inr (vevent_c (strftime_utc (utcnow sample_world n))), Suc n)"
proof -
  have m: "make_dt sample_world fixture_c = Inr \<lparr>wall = 63909043200, tzinfo = (\<lambda>reading. 0)\<rparr>"
    by (rule make_dt_date_only) (simp_all add: fixture_c_def)
  have s: "event_summary fixture_c team_a = Inr ''Lakers vs Celtics''"
    by (simp add: event_summary_def event_title_def dict_get_def dict_get_default_def
        fixture_c_def team_a_def strip_def is_space_def)
  have l: "event_location fixture_c = []"
    by (simp add: event_location_def dict_get_def fixture_c_def py_or_def)
  have d: "event_description fixture_c = ''NBA''"
    by (simp add: event_description_def dict_get_def fixture_c_def py_or_def)
  show ?thesis
    unfolding build_vevent_eval [OF m duration_team_a to_utc_20260314 uid_fixture_c s]
    by (simp add: vevent_c_def l d)
qed

lemma events_a_c:
  "process_events sample_world team_a init_state [fixture_a, fixture_c] = st_two"
proof -
  have 1: "process_event sample_world team_a init_state fixture_a
             = \<lparr>seen_uids = {''English_Premier_League-2052711@github.io''},
                vevents = [vevent_a ''20261104T120000Z''], clock_reads = Suc 0\<rparr>"
    by (subst process_event_new [OF uid_fixture_a _ build_fixture_a])
       (simp_all add: init_state_def sample_now)
  have 2: "process_event sample_world team_a
             \<lparr>seen_uids = {''English_Premier_League-2052711@github.io''},
              vevents = [vevent_a ''20261104T120000Z''], clock_reads = Suc 0\<rparr> fixture_c = st_two"
    by (subst process_event_new [OF uid_fixture_c _ build_fixture_c])
       (simp_all add: st_two_def sample_now_1)
  show ?thesis by (simp add: 1 2)
qed

lemma team_ids:
  "team_a ''team_id'' = Some (JStr ''133604'')" "team_b ''team_id'' = Some (JStr ''133610'')"
  "team_x ''team_id'' = Some (JStr ''000000'')"
  by (simp_all add: team_a_def team_b_def team_x_def)

lemma feeds_shared:
  "requests_get world_shared (JStr ''133604'') = Inr [fixture_a, fixture_c]"
  "requests_get world_shared (JStr ''133610'') = Inr [fixture_a, fixture_b]"
  "requests_get world_shared (JStr ''000000'') = Inl RequestError"
  by (simp_all add: world_shared_def feed_shared_def)

lemma feeds_dup: "requests_get world_dup (JStr ''133604'') = Inr [fixture_c_bad, fixture_c]"
  by (simp add: world_dup_def feed_dup_def)

lemma process_events_shared:
  "process_events world_shared team st evs = process_events sample_world team st evs"
  unfolding world_shared_def by (rule process_events_feed)

lemma process_events_dup:
  "process_events world_dup team st evs = process_events sample_world team st evs"
  unfolding world_dup_def by (rule process_events_feed)

lemma run_two: "run_teams world_shared init_state [team_a] = Inr st_two"
  by (simp add: team_ids feeds_shared process_events_shared events_a_c del: process_events.simps)

lemma events_b_after_a:
  "process_events sample_world team_b st_two [fixture_a, fixture_b] = st_shared"
proof -
  have 1: "process_event sample_world team_b st_two fixture_a = st_two"
    by (rule process_event_seen [OF uid_fixture_a]) (simp add: st_two_def)
  have 2: "process_event sample_world team_b st_two fixture_b = st_shared"
    by (subst process_event_new [OF uid_fixture_b _ build_fixture_b])
       (simp_all add: st_two_def st_shared_def sample_now_2)
  show ?thesis by (simp add: 1 2)
qed

lemma run_shared: "run_teams world_shared init_state [team_a, team_b] = Inr st_shared"
  by (simp add: team_ids feeds_shared process_events_shared events_a_c events_b_after_a
      del: process_events.simps)

lemma fetch_order_shared:
  "fetch_order world_shared [team_a, team_b]
     = [(team_a, fixture_a), (team_a, fixture_c), (team_b, fixture_a), (team_b, fixture_b)]"
  by (simp add: fetch_order_def team_ids feeds_shared)

lemma fetch_order_dup:
  "fetch_order world_dup [team_a] = [(team_a, fixture_c_bad), (team_a, fixture_c)]"
  by (simp add: fetch_order_def team_ids feeds_dup)

lemma no_date_c_bad: "\<not> truthy (dict_get fixture_c_bad ''dateEvent'')"
  by (simp add: dict_get_def fixture_c_bad_def)

lemma no_date_nodate: "\<not> truthy (dict_get fixture_nodate ''dateEvent'')"
  by (simp add: dict_get_def fixture_nodate_def)

lemma events_dup:
  "process_events sample_world team_a init_state [fixture_c_bad, fixture_c] = st_dup"
proof -
  have 1: "process_event sample_world team_a init_state fixture_c_bad = st_dup"
    by (subst process_event_fail [OF uid_fixture_c_bad _ build_vevent_missing [OF no_date_c_bad]])
       (simp_all add: init_state_def st_dup_def)
  have 2: "process_event sample_world team_a st_dup fixture_c = st_dup"
    by (rule process_event_seen [OF uid_fixture_c]) (simp add: st_dup_def)
  show ?thesis by (simp add: 1 2)
qed

lemma run_dup: "run_teams world_dup init_state [team_a] = Inr st_dup"
  by (simp add: team_ids feeds_dup process_events_dup events_dup del: process_events.simps)

lemma renders_fixture_a: "renders sample_world fixture_a team_a"
  by (simp add: renders_def build_fixture_a)

lemma renders_fixture_c: "renders sample_world fixture_c team_a"
  by (simp add: renders_def build_fixture_c)

lemma not_renders_c_bad: "\<not> renders sample_world fixture_c_bad team_a"
  by (simp add: renders_def build_vevent_missing [OF no_date_c_bad])

lemma world_dup_facts:
  "uid_for world_dup fixture_c_bad = Inr ''NBA-2052714@github.io''"
  "uid_for world_dup fixture_c = Inr ''NBA-2052714@github.io''"
  "renders world_dup fixture_c team_a"
  "\<not> renders world_dup fixture_c_bad team_a"
  unfolding world_dup_def uid_for_feed renders_feed
  by (simp_all add: uid_fixture_c uid_fixture_c_bad renders_fixture_c not_renders_c_bad)

lemma world_shared_facts:
  "uid_for world_shared fixture_a = Inr ''English_Premier_League-2052711@github.io''"
  "uid_for world_shared fixture_b = Inr ''English_Premier_League-2052712@github.io''"
  "uid_for world_shared fixture_c = Inr ''NBA-2052714@github.io''"
  "renders world_shared fixture_a team_a"
  unfolding world_shared_def uid_for_feed renders_feed
  by (simp_all add: uid_fixture_a uid_fixture_b uid_fixture_c renders_fixture_a)

text \<open>
  C4, as stated, fails: a team returns a dateless fixture and then a renderable fixture
  with the same uid; the first occurrence contributes no VEVENT and the run ends with
  no block at all.
\<close>

theorem first_occurrence_not_kept_counterexample:
  "fetch_order world_dup [team_a] = [(team_a, fixture_c_bad), (team_a, fixture_c)]
   \<and> uid_for world_dup fixture_c_bad = Inr ''NBA-2052714@github.io''
   \<and> uid_for world_dup fixture_c = Inr ''NBA-2052714@github.io''
   \<and> renders world_dup fixture_c team_a
   \<and> run_teams world_dup init_state [team_a] = Inr st_dup
   \<and> vevents st_dup = []"
  using fetch_order_dup world_dup_facts run_dup by (simp add: st_dup_def)

text \<open>
  C4 on the sample run: two teams share a fixture; it appears once, as the block built
  for the first team.
\<close>

theorem dedup_keeps_first_occurrence_witness:
  "run_teams world_shared init_state [team_a, team_b] = Inr st_shared
   \<and> fetch_order world_shared [team_a, team_b]
       = [] @ (team_a, fixture_a) # [(team_a, fixture_c), (team_b, fixture_a), (team_b, fixture_b)]
   \<and> uid_for world_shared fixture_a = Inr ''English_Premier_League-2052711@github.io''
   \<and> renders world_shared fixture_a team_a
   \<and> distinct (map uid (vevents st_shared))
   \<and> length (vevents st_shared) = 3
   \<and> (\<exists>n v. build_vevent world_shared n fixture_a team_a = (Inr v, Suc n)
            \<and> blocks_with_uid ''English_Premier_League-2052711@github.io'' st_shared = [v])"
proof -
  have f: "fetch_order world_shared [team_a, team_b]
       = [] @ (team_a, fixture_a) # [(team_a, fixture_c), (team_b, fixture_a), (team_b, fixture_b)]"
    by (simp add: fetch_order_shared)
  have p: "''English_Premier_League-2052711@github.io'' \<notin> set (derived_uids world_shared [])"
    by (simp add: derived_uids_def)
  from dedup_keeps_first_occurrence [OF run_shared]
  have d: "distinct (map uid (vevents st_shared))"
    and a: "\<forall>pre team ev post u.
             fetch_order world_shared [team_a, team_b] = pre @ (team, ev) # post
               \<longrightarrow> uid_for world_shared ev = Inr u
               \<longrightarrow> u \<notin> set (derived_uids world_shared pre) \<longrightarrow> renders world_shared ev team
               \<longrightarrow> (\<exists>n v. build_vevent world_shared n ev team = (Inr v, Suc n)
                          \<and> blocks_with_uid u st_shared = [v])"
    by blast+
  from a f world_shared_facts(1) p world_shared_facts(4)
  have "\<exists>n v. build_vevent world_shared n fixture_a team_a = (Inr v, Suc n)
            \<and> blocks_with_uid ''English_Premier_League-2052711@github.io'' st_shared = [v]"
    by blast
  moreover have "length (vevents st_shared) = 3" by (simp add: st_shared_def)
  ultimately show ?thesis using run_shared f world_shared_facts d by simp
qed

text \<open>
  C10 on the sample run with the dateless twin first.
\<close>

theorem failed_first_occurrence_blocks_uid_witness:
  "run_teams world_dup init_state [team_a] = Inr st_dup
   \<and> fetch_order world_dup [team_a] = [] @ (team_a, fixture_c_bad) # [(team_a, fixture_c)]
   \<and> uid_for world_dup fixture_c_bad = Inr ''NBA-2052714@github.io''
   \<and> \<not> renders world_dup fixture_c_bad team_a
   \<and> uid_for world_dup fixture_c = Inr ''NBA-2052714@github.io''
   \<and> renders world_dup fixture_c team_a
   \<and> ''NBA-2052714@github.io'' \<in> seen_uids st_dup
   \<and> blocks_with_uid ''NBA-2052714@github.io'' st_dup = []"
proof -
  have f: "fetch_order world_dup [team_a] = [] @ (team_a, fixture_c_bad) # [(team_a, fixture_c)]"
    by (simp add: fetch_order_dup)
  have p: "''NBA-2052714@github.io'' \<notin> set (derived_uids world_dup [])"
    by (simp add: derived_uids_def)
  from failed_first_occurrence_blocks_uid [OF run_dup f world_dup_facts(1) p world_dup_facts(4)]
  show ?thesis using run_dup f world_dup_facts by simp
qed

text \<open>
  C6, as stated, fails: with a clock that advances between readings, the three blocks
  of one run carry three different DTSTAMPs.
\<close>

theorem dtstamp_differs_counterexample:
  "run_teams world_shared init_state [team_a, team_b] = Inr st_shared
   \<and> map dtstamp (vevents st_shared)
       = [''20261104T120000Z'', ''20261104T120001Z'', ''20261104T120002Z'']"
  using run_shared by (simp add: st_shared_def vevent_a_def vevent_b_def vevent_c_def)

text \<open>
  C6, amended, on the sample run.
\<close>

theorem dtstamp_is_read_per_block_witness:
  "run_teams world_shared init_state [team_a, team_b] = Inr st_shared
   \<and> (\<exists>ks. map dtstamp (vevents st_shared) = map (\<lambda>k. strftime_utc (utcnow world_shared k)) ks
          \<and> sorted_wrt (<) ks \<and> list_all (\<lambda>k. k < clock_reads st_shared) ks)"
  using dtstamp_is_read_per_block [OF run_shared] run_shared by simp

text \<open>
  C8, as stated, fails: a team returns a valid fixture, a dateless one and a valid one
  that derives the uid of the dateless one; the last is dropped with it and the team
  yields one block, not two.
\<close>

theorem dateless_sibling_counterexample:
  "\<not> truthy (dict_get fixture_c_bad ''dateEvent'')
   \<and> make_dt sample_world fixture_c_bad = Inl (ValueError ''Event missing dateEvent'')
   \<and> uid_for sample_world fixture_c_bad = Inr ''NBA-2052714@github.io''
   \<and> uid_for sample_world fixture_c = Inr ''NBA-2052714@github.io''
   \<and> renders sample_world fixture_a team_a
   \<and> renders sample_world fixture_c team_a
   \<and> process_events sample_world team_a init_state [fixture_a, fixture_c_bad, fixture_c] = st_one
   \<and> length (vevents st_one) = 1"
proof -
  have 1: "process_event sample_world team_a init_state fixture_a
             = \<lparr>seen_uids = {''English_Premier_League-2052711@github.io''},
                vevents = [vevent_a ''20261104T120000Z''], clock_reads = Suc 0\<rparr>"
    by (subst process_event_new [OF uid_fixture_a _ build_fixture_a])
       (simp_all add: init_state_def sample_now)
  have 2: "process_event sample_world team_a
             \<lparr>seen_uids = {''English_Premier_League-2052711@github.io''},
              vevents = [vevent_a ''20261104T120000Z''], clock_reads = Suc 0\<rparr> fixture_c_bad
           = st_one"
    by (subst process_event_fail [OF uid_fixture_c_bad _ build_vevent_missing [OF no_date_c_bad]])
       (simp_all add: st_one_def)
  have 3: "process_event sample_world team_a st_one fixture_c = st_one"
    by (rule process_event_seen [OF uid_fixture_c]) (simp add: st_one_def)
  have "process_events sample_world team_a init_state [fixture_a, fixture_c_bad, fixture_c] = st_one"
    by (simp add: 1 2 3)
  moreover have "length (vevents st_one) = 1" by (simp add: st_one_def)
  ultimately show ?thesis
    using no_date_c_bad renders_fixture_a renders_fixture_c
    by (simp add: make_dt_missing uid_fixture_c uid_fixture_c_bad)
qed

text \<open>
  C8, amended, on a team returning a valid fixture, a dateless one and a valid one with
  three different uids: two blocks.
\<close>

theorem missing_date_skips_only_that_event_witness:
  "\<not> truthy (dict_get fixture_nodate ''dateEvent'')
   \<and> uid_for sample_world fixture_nodate = Inr ''NBA-2052713@github.io''
   \<and> uid_for sample_world fixture_c = Inr ''NBA-2052714@github.io''
   \<and> make_dt sample_world fixture_nodate = Inl (ValueError ''Event missing dateEvent'')
   \<and> vevents (process_events sample_world team_a init_state
                ([fixture_a] @ fixture_nodate # [fixture_c]))
       = [vevent_a ''20261104T120000Z'', vevent_c ''20261104T120001Z'']
   \<and> length (vevents (process_events sample_world team_a init_state
                ([fixture_a] @ fixture_nodate # [fixture_c]))) = 2"
proof -
  have h: "\<forall>u. uid_for sample_world fixture_nodate = Inr u
             \<longrightarrow> (\<forall>e\<in>set [fixture_c]. uid_for sample_world e \<noteq> Inr u)"
    by (simp add: uid_fixture_nodate uid_fixture_c)
  have e: "process_events sample_world team_a init_state ([fixture_a] @ [fixture_c]) = st_two"
    using events_a_c by simp
  from missing_date_skips_only_that_event [OF no_date_nodate h,
      where team = team_a and st = init_state and pre = "[fixture_a]" and n = 0]
  have "make_dt sample_world fixture_nodate = Inl (ValueError ''Event missing dateEvent'')"
    and "vevents (process_events sample_world team_a init_state
                ([fixture_a] @ fixture_nodate # [fixture_c])) = vevents st_two"
    unfolding e by blast+
  then show ?thesis
    using no_date_nodate by (simp add: uid_fixture_nodate uid_fixture_c st_two_def)
qed

text \<open>
  C9 on a failing team followed by a team with two valid fixtures: two blocks.
\<close>

theorem failed_fetch_contributes_nothing_witness:
  "team_x ''team_id'' = Some (JStr ''000000'')
   \<and> requests_get world_shared (JStr ''000000'') = Inl RequestError
   \<and> team_a ''team_id'' = Some (JStr ''133604'')
   \<and> run_teams world_shared init_state ([] @ team_x # [team_a]) = Inr st_two
   \<and> length (vevents st_two) = 2
   \<and> main world_shared ([] @ team_x # [team_a])
       = Inr (generate_calendar (map vevent_text (vevents st_two)))"
proof -
  have t: "\<forall>t\<in>set ([] @ [team_a]). t ''team_id'' \<noteq> None" by (simp add: team_ids)
  have r: "run_teams world_shared init_state ([] @ [team_a]) = Inr st_two"
    using run_two by simp
  from failed_fetch_contributes_nothing [where team = team_x and tid = "JStr ''000000''"
      and pre = "[]" and post = "[team_a]" and st = init_state,
      OF team_ids(3) feeds_shared(3)] t r
  have "run_teams world_shared init_state ([] @ team_x # [team_a]) = Inr st_two"
    and "main world_shared ([] @ team_x # [team_a])
       = Inr (generate_calendar (map vevent_text (vevents st_two)))"
    by auto
  moreover have "length (vevents st_two) = 2" by (simp add: st_two_def)
  ultimately show ?thesis using team_ids(1) team_ids(3) feeds_shared(3) by simp
qed

end
